theory Spec2Isabelle
  imports Main "HOL-Library.AList" "HOL-Library.Sublist"
begin

section \<open>Strings and buffers\<close>

text \<open>
  In the handler a JavaScript string is modelled as a \<^typ>\<open>string\<close> (a list of
  8-bit characters) and a Node \<open>Buffer\<close> as a list of bytes, also written as
  characters, so that \<open>buffer.toString('utf-8')\<close> of an ASCII buffer is the identity.
  The token service works on lists of UTF-16 code units instead (see there), because
  \<open>parseInt\<close> treats code units above \<open>0xFF\<close> as white space.
\<close>

type_synonym Buffer = string

text \<open>\<open>String.prototype.split\<close> with a one-character separator: always one piece more
  than there are separators.\<close>

fun split_on :: "'a \<Rightarrow> 'a list \<Rightarrow> 'a list list" where
  "split_on c [] = [[]]"
| "split_on c (x # xs) =
     (if x = c then [] # split_on c xs
      else (case split_on c xs of p # ps \<Rightarrow> (x # p) # ps | [] \<Rightarrow> [[x]]))"

text \<open>\<open>Array.prototype.join\<close> with a one-character separator.\<close>

fun join_with :: "char \<Rightarrow> string list \<Rightarrow> string" where
  "join_with c [] = []"
| "join_with c [p] = p"
| "join_with c (p # q # ps) = p @ c # join_with c (q # ps)"

section \<open>Token service (src/server/auth.ts)\<close>

text \<open>
  A token is a JavaScript string: a list of UTF-16 code units, each a number. \<open>js\<close>
  turns an ASCII literal into its code units (\<open>:\<close> is 58, \<open>+\<close> is 43, \<open>-\<close> is 45,
  the digits are 48 to 57).
\<close>

type_synonym jsstring = "nat list"

definition js :: "string \<Rightarrow> jsstring" where
  "js s = map of_char s"

text \<open>
  The white space that \<open>parseInt\<close> skips (ECMAScript \<open>WhiteSpace\<close> and
  \<open>LineTerminator\<close>): TAB, LF, VT, FF, CR, SPACE, NO-BREAK SPACE, U+1680, U+2000 to
  U+200A, U+2028, U+2029, U+202F, U+205F, U+3000 and U+FEFF.
\<close>

definition is_space :: "nat \<Rightarrow> bool" where
  "is_space c =
     (c = 0x09 \<or> c = 0x0A \<or> c = 0x0B \<or> c = 0x0C \<or> c = 0x0D \<or> c = 0x20 \<or> c = 0xA0 \<or>
      c = 0x1680 \<or> (0x2000 \<le> c \<and> c \<le> 0x200A) \<or> c = 0x2028 \<or> c = 0x2029 \<or>
      c = 0x202F \<or> c = 0x205F \<or> c = 0x3000 \<or> c = 0xFEFF)"

definition is_digit :: "nat \<Rightarrow> bool" where
  "is_digit c = (48 \<le> c \<and> c \<le> 57)"

definition digits_value :: "jsstring \<Rightarrow> nat" where
  "digits_value ds = foldl (\<lambda>a c. 10 * a + (c - 48)) 0 ds"

text \<open>
  \<open>parseInt(s, 10)\<close>: leading white space is skipped, one sign is accepted, then the
  longest run of decimal digits is read; with no digit the result is \<open>NaN\<close>, modelled
  as \<open>None\<close>. (The result is a double; for the comparison with a millisecond clock
  below \<open>2^53\<close> the rounding of longer digit strings does not change the outcome.)
\<close>

definition parseInt :: "jsstring \<Rightarrow> int option" where
  "parseInt s =
     (let t = dropWhile is_space s;
          neg = (case t of c # r \<Rightarrow> c = 45 | [] \<Rightarrow> False);
          u = (case t of c # r \<Rightarrow> if c = 45 \<or> c = 43 then r else t | [] \<Rightarrow> []);
          ds = takeWhile is_digit u
      in if ds = [] then None
         else Some (if neg then - int (digits_value ds) else int (digits_value ds)))"

text \<open>
  \<open>createSignature\<close> is HMAC-SHA256 under the service's secret, hex encoded; it comes from
  Node's \<open>crypto\<close> module and is a parameter of the model. \<open>Date.now()\<close> is the parameter
  \<open>now\<close>.

  \<open>validateToken\<close>: nothing in the \<open>try\<close> block throws on a string, so the \<open>catch\<close>
  branch (which returns \<open>false\<close>) is never taken. \<open>Date.now() > expiryTime\<close> is false
  when \<open>expiryTime\<close> is \<open>NaN\<close>.
\<close>

definition validateToken :: "(jsstring \<Rightarrow> jsstring) \<Rightarrow> int \<Rightarrow> jsstring \<Rightarrow> bool" where
  "validateToken createSignature now token =
     (let parts = split_on 58 token in
      if length parts \<noteq> 3 then False
      else
        let timestamp = parts ! 0; expiresAt = parts ! 1; signature = parts ! 2;
            payload = timestamp @ [58] @ expiresAt;
            expectedSignature = createSignature payload
        in if signature \<noteq> expectedSignature then False
           else (case parseInt expiresAt of
                   None \<Rightarrow> True
                 | Some expiryTime \<Rightarrow> if now > expiryTime then False else True))"

text \<open>
  The validity condition in the words of the specification: exactly three fields, the
  third equal to the recomputed signature, and the current time at most the parsed
  expiry field.
\<close>

definition spec_token_valid :: "(jsstring \<Rightarrow> jsstring) \<Rightarrow> int \<Rightarrow> jsstring \<Rightarrow> bool" where
  "spec_token_valid createSignature now token =
     (let parts = split_on 58 token in
      length parts = 3 \<and>
      parts ! 2 = createSignature (parts ! 0 @ [58] @ parts ! 1) \<and>
      (case parseInt (parts ! 1) of None \<Rightarrow> False | Some expiryTime \<Rightarrow> now \<le> expiryTime))"

text \<open>What the code computes: the expiry check only fails on a parsed expiry that the
  clock has passed.\<close>

definition code_token_valid :: "(jsstring \<Rightarrow> jsstring) \<Rightarrow> int \<Rightarrow> jsstring \<Rightarrow> bool" where
  "code_token_valid createSignature now token =
     (let parts = split_on 58 token in
      length parts = 3 \<and>
      parts ! 2 = createSignature (parts ! 0 @ [58] @ parts ! 1) \<and>
      (case parseInt (parts ! 1) of None \<Rightarrow> True | Some expiryTime \<Rightarrow> now \<le> expiryTime))"

section \<open>Shared types (src/shared/types.ts)\<close>

text \<open>
  The payload of a file upload is declared as \<open>ArrayBuffer | string\<close>; a binary frame
  delivers a \<open>Buffer\<close> slice. \<open>Buffer.from\<close> copies both binary forms unchanged and
  decodes a string as base64.
\<close>

datatype FileData = BufferData Buffer | Base64Data string

text \<open>
  The tagged union \<open>TerminalMessage\<close>. The filename of an upload is optional in the
  model because the binary decoder copies \<open>header.filename\<close> from an arbitrary JSON
  header, where it may be \<open>undefined\<close>.
\<close>

datatype TerminalMessage =
    InputMessage string
  | OutputMessage string
  | ResizeMessage int int
  | FileUploadMessage "string option" FileData nat
  | FileDownloadMessage string string nat
  | AuthMessage string
  | ErrorMessage string
  | ReadyMessage string string

text \<open>\<open>Partial<PTYConfig>\<close>: every field may be absent.\<close>

record PTYConfig =
  shell :: "string option"
  cwd :: "string option"
  env :: "(string \<times> string) list option"
  cols :: "int option"
  rows :: "int option"

section \<open>Effects and the environment\<close>

text \<open>
  A WebSocket and a pty process are known by their identity (a number). Every call that
  leaves the handler is recorded, in order, as an effect.
\<close>

datatype effect =
    PtySpawn string int int string "(string \<times> string) list"
  | PtyWrite nat string
  | PtyResize nat int int
  | PtyKill nat "string option"
  | PtyOnData nat nat
  | PtyOnExit nat nat
  | WsSend nat TerminalMessage
  | WsClose nat
  | WsTerminate nat
  | WsPing nat
  | WriteFileSync string Buffer
  | SetTimeout nat
  | ClearTimeout

datatype error = PTYNotSpawned | SpawnFailed | RangeError | SyntaxError | TypeError | WriteFailed

text \<open>The process object returned by \<open>pty.spawn\<close>; the code reads \<open>pid\<close> and \<open>shellType\<close>.\<close>

record IPty =
  pid :: nat
  shellType :: "string option"

text \<open>
  What the handler reads from outside during one callback: the clock, the transport's
  \<open>readyState\<close>, the process's working directory and environment, and the answers of
  the library calls (\<open>pty.spawn\<close> and \<open>ptyProcess.kill\<close> may throw,
  \<open>fs.writeFileSync\<close> may throw, \<open>JSON.parse\<close> may throw). \<open>JSON_parse_header\<close>
  gives \<open>None\<close> when parsing or reading \<open>header.filename\<close> throws, and
  \<open>Some None\<close> when the header has no filename. \<open>detectShell\<close> stands for the
  result of \<open>PTYManager.detectShell()\<close>, which only reads the file system.
\<close>

record World =
  Date_now :: int
  readyState_open :: "nat \<Rightarrow> bool"
  process_cwd :: string
  process_env :: "(string \<times> string) list"
  os_homedir :: string
  os_username :: string
  detectShell :: string
  pty_spawn :: "IPty option"
  kill_throws :: bool
  writeFileSync_throws :: "string \<Rightarrow> bool"
  JSON_parse_message :: "string \<Rightarrow> TerminalMessage option"
  JSON_parse_header :: "string \<Rightarrow> string option option"
  base64_decode :: "string \<Rightarrow> Buffer"

section \<open>Pseudo-terminal manager (src/server/pty-manager.ts)\<close>

record PTYManager =
  ptyProcess :: "IPty option"
  sessionId :: string

type_synonym 'a outcome = "(error + 'a) \<times> effect list"

definition new_PTYManager :: "string \<Rightarrow> PTYManager" where
  "new_PTYManager sid = \<lparr>ptyProcess = None, sessionId = sid\<rparr>"

text \<open>\<open>a || b\<close> on an optional string or number: an absent, empty or zero value is falsy.\<close>

definition or_string :: "string option \<Rightarrow> string \<Rightarrow> string" where
  "or_string a b = (case a of None \<Rightarrow> b | Some s \<Rightarrow> if s = [] then b else s)"

definition or_int :: "int option \<Rightarrow> int \<Rightarrow> int" where
  "or_int a b = (case a of None \<Rightarrow> b | Some n \<Rightarrow> if n = 0 then b else n)"

text \<open>
  \<open>spawn\<close> assigns the new process to \<open>ptyProcess\<close> whatever the field held before;
  when \<open>pty.spawn\<close> throws, the error is rethrown and the field keeps its value.
\<close>

definition spawn :: "World \<Rightarrow> PTYConfig \<Rightarrow> PTYManager \<Rightarrow> PTYManager outcome" where
  "spawn w config m =
     (let shell' = or_string (shell config) (detectShell w);
          cwd' = or_string (cwd config) (os_homedir w);
          cols' = or_int (cols config) 80;
          rows' = or_int (rows config) 24;
          env' = AList.merge
                   (AList.merge (process_env w)
                      [(''TERM'', ''xterm-256color''), (''COLORTERM'', ''truecolor''),
                       (''HOME'', os_homedir w), (''USER'', os_username w), (''SHELL'', shell'),
                       (''LANG'', or_string (map_of (process_env w) ''LANG'') ''en_US.UTF-8'')])
                   (case env config of None \<Rightarrow> [] | Some e \<Rightarrow> e);
          call = PtySpawn shell' cols' rows' cwd' env'
      in case pty_spawn w of
           None \<Rightarrow> (Inl SpawnFailed, [call])
         | Some p \<Rightarrow> (Inr (m\<lparr>ptyProcess := Some p\<rparr>), [call]))"

text \<open>\<open>PTYManager.write\<close>.\<close>

definition pty_write :: "PTYManager \<Rightarrow> string \<Rightarrow> PTYManager outcome" where
  "pty_write m data =
     (case ptyProcess m of
        None \<Rightarrow> (Inl PTYNotSpawned, [])
      | Some p \<Rightarrow> (Inr m, [PtyWrite (pid p) data]))"

text \<open>A failure of the underlying resize is logged and swallowed.\<close>

definition resize :: "PTYManager \<Rightarrow> int \<Rightarrow> int \<Rightarrow> PTYManager outcome" where
  "resize m c r =
     (case ptyProcess m of
        None \<Rightarrow> (Inl PTYNotSpawned, [])
      | Some p \<Rightarrow> (Inr m, [PtyResize (pid p) c r]))"

definition onData :: "PTYManager \<Rightarrow> nat \<Rightarrow> PTYManager outcome" where
  "onData m ws =
     (case ptyProcess m of
        None \<Rightarrow> (Inl PTYNotSpawned, [])
      | Some p \<Rightarrow> (Inr m, [PtyOnData (pid p) ws]))"

definition onExit :: "PTYManager \<Rightarrow> nat \<Rightarrow> PTYManager outcome" where
  "onExit m ws =
     (case ptyProcess m of
        None \<Rightarrow> (Inl PTYNotSpawned, [])
      | Some p \<Rightarrow> (Inr m, [PtyOnExit (pid p) ws]))"

text \<open>
  \<open>kill\<close>: with no process nothing happens; otherwise the process is killed and the
  reference cleared, unless the underlying kill throws, which is caught (the reference
  then stays).
\<close>

definition kill :: "World \<Rightarrow> string option \<Rightarrow> PTYManager \<Rightarrow> PTYManager outcome" where
  "kill w signal m =
     (case ptyProcess m of
        None \<Rightarrow> (Inr m, [])
      | Some p \<Rightarrow>
          if kill_throws w then (Inr m, [PtyKill (pid p) signal])
          else (Inr (m\<lparr>ptyProcess := None\<rparr>), [PtyKill (pid p) signal]))"

definition getProcess :: "PTYManager \<Rightarrow> IPty option" where
  "getProcess m = ptyProcess m"

definition pty_isAlive :: "PTYManager \<Rightarrow> bool" where
  "pty_isAlive m = (ptyProcess m \<noteq> None)"

section \<open>Node's POSIX path functions\<close>

text \<open>
  \<open>path.basename\<close>: trailing slashes are dropped, then the part after the last slash
  is returned (the empty string when nothing is left).
\<close>

definition basename :: "string \<Rightarrow> string" where
  "basename p =
     rev (takeWhile (\<lambda>c. c \<noteq> CHR ''/'') (dropWhile (\<lambda>c. c = CHR ''/'') (rev p)))"

text \<open>
  \<open>normalizeString\<close> walks the segments of a path: empty segments and \<open>.\<close> are
  skipped, \<open>..\<close> removes the last kept segment (or is kept itself above the start when
  \<open>allowAboveRoot\<close>), any other segment is kept.
\<close>

fun normalize_segments :: "bool \<Rightarrow> string list \<Rightarrow> string list \<Rightarrow> string list" where
  "normalize_segments allowAboveRoot res [] = res"
| "normalize_segments allowAboveRoot res (seg # segs) =
     (if seg = [] \<or> seg = ''.'' then normalize_segments allowAboveRoot res segs
      else if seg = ''..'' then
        (if res \<noteq> [] \<and> last res \<noteq> ''..''
           then normalize_segments allowAboveRoot (butlast res) segs
         else if allowAboveRoot
           then normalize_segments allowAboveRoot (res @ [''..'']) segs
         else normalize_segments allowAboveRoot res segs)
      else normalize_segments allowAboveRoot (res @ [seg]) segs)"

definition normalizeString :: "string \<Rightarrow> bool \<Rightarrow> string" where
  "normalizeString path allowAboveRoot =
     join_with CHR ''/'' (normalize_segments allowAboveRoot [] (split_on CHR ''/'' path))"

text \<open>
  \<open>path.resolve\<close>: the arguments are taken from the right (then the process's working
  directory) until an absolute one is met; empty arguments are skipped.
\<close>

fun resolve_loop :: "string list \<Rightarrow> string \<Rightarrow> string \<times> bool" where
  "resolve_loop [] resolvedPath = (resolvedPath, False)"
| "resolve_loop (p # ps) resolvedPath =
     (if p = [] then resolve_loop ps resolvedPath
      else if hd p = CHR ''/'' then (p @ ''/'' @ resolvedPath, True)
      else resolve_loop ps (p @ ''/'' @ resolvedPath))"

definition resolve :: "string \<Rightarrow> string list \<Rightarrow> string" where
  "resolve pcwd args =
     (case resolve_loop (rev args @ [pcwd]) [] of
        (resolvedPath, resolvedAbsolute) \<Rightarrow>
          let n = normalizeString resolvedPath (\<not> resolvedAbsolute)
          in if resolvedAbsolute then CHR ''/'' # n
             else if n \<noteq> [] then n else ''.'')"

text \<open>
  For stating where uploads go: \<open>abs_path segs\<close> is the absolute path with the
  segments \<open>segs\<close> (the root for none); a plain segment is a file or directory
  name (not empty, without a slash, not \<open>.\<close> or \<open>..\<close>). \<open>process.cwd()\<close> is
  always \<open>abs_path\<close> of plain segments. \<open>resolved_segments segs b\<close> are the segments
  that resolving the slash-free name \<open>b\<close> against \<open>abs_path segs\<close> gives.
\<close>

definition abs_path :: "string list \<Rightarrow> string" where
  "abs_path segs = CHR ''/'' # join_with CHR ''/'' segs"

definition plain_segment :: "string \<Rightarrow> bool" where
  "plain_segment s = (s \<noteq> [] \<and> CHR ''/'' \<notin> set s \<and> s \<noteq> ''.'' \<and> s \<noteq> ''..'')"

definition resolved_segments :: "string list \<Rightarrow> string \<Rightarrow> string list" where
  "resolved_segments segs b =
     (if b = [] \<or> b = ''.'' then segs
      else if b = ''..'' then butlast segs
      else segs @ [b])"

section \<open>WebSocket handler (src/server/websocket-handler.ts)\<close>

record SessionState =
  pty :: PTYManager
  authenticated :: bool
  messageCount :: int
  lastMinute :: int
  isAlive :: bool

text \<open>The sessions are a JavaScript \<open>Map\<close> from sockets to session states: an
  association list in insertion order.\<close>

record WebSocketHandler =
  sessions :: "(nat \<times> SessionState) list"
  rateLimit :: int
  maxMessageSize :: int

definition send :: "World \<Rightarrow> nat \<Rightarrow> TerminalMessage \<Rightarrow> effect list" where
  "send w ws message = (if readyState_open w ws then [WsSend ws message] else [])"

definition sendError :: "World \<Rightarrow> nat \<Rightarrow> string \<Rightarrow> effect list" where
  "sendError w ws message = send w ws (ErrorMessage message)"

subsection \<open>The output throttle created by \<open>handleAuth\<close>\<close>

text \<open>
  The closure variables \<open>outputBuffer\<close> and \<open>flushTimeout\<close> (a pending timer or
  \<open>null\<close>), the function \<open>flush\<close> (also the timer's callback) and the callbacks
  passed to \<open>onData\<close> and \<open>onExit\<close>.
\<close>

record OutputThrottle =
  outputBuffer :: string
  flushTimeout :: bool

definition new_OutputThrottle :: OutputThrottle where
  "new_OutputThrottle = \<lparr>outputBuffer = [], flushTimeout = False\<rparr>"

definition flush :: "World \<Rightarrow> nat \<Rightarrow> OutputThrottle \<Rightarrow> OutputThrottle \<times> effect list" where
  "flush w ws t =
     (if length (outputBuffer t) > 0
      then (t\<lparr>outputBuffer := [], flushTimeout := False\<rparr>,
            send w ws (OutputMessage (outputBuffer t)))
      else (t\<lparr>flushTimeout := False\<rparr>, []))"

definition onData_callback ::
  "World \<Rightarrow> nat \<Rightarrow> OutputThrottle \<Rightarrow> string \<Rightarrow> OutputThrottle \<times> effect list" where
  "onData_callback w ws t data =
     (let t1 = t\<lparr>outputBuffer := outputBuffer t @ data\<rparr> in
      if length (outputBuffer t1) > 8192 then
        (case flush w ws t1 of
           (t2, es) \<Rightarrow> (t2, (if flushTimeout t1 then [ClearTimeout] else []) @ es))
      else if \<not> flushTimeout t1 then (t1\<lparr>flushTimeout := True\<rparr>, [SetTimeout 5])
      else (t1, []))"

definition onExit_callback :: "nat \<Rightarrow> effect list" where
  "onExit_callback ws = [WsClose ws]"

text \<open>The events of one throttle: a chunk from the shell, or the timer firing.\<close>

datatype throttle_event = ShellData string | TimerFired

fun throttle_step ::
  "World \<Rightarrow> nat \<Rightarrow> OutputThrottle \<Rightarrow> throttle_event \<Rightarrow> OutputThrottle \<times> effect list" where
  "throttle_step w ws t (ShellData d) = onData_callback w ws t d"
| "throttle_step w ws t TimerFired = flush w ws t"

fun throttle_run ::
  "World \<Rightarrow> nat \<Rightarrow> OutputThrottle \<Rightarrow> throttle_event list \<Rightarrow> OutputThrottle \<times> effect list" where
  "throttle_run w ws t [] = (t, [])"
| "throttle_run w ws t (e # es) =
     (case throttle_step w ws t e of
        (t1, out1) \<Rightarrow> (case throttle_run w ws t1 es of (t2, out2) \<Rightarrow> (t2, out1 @ out2)))"

subsection \<open>Message handlers\<close>

definition handleAuth :: "World \<Rightarrow> nat \<Rightarrow> SessionState \<Rightarrow> string \<Rightarrow> SessionState \<times> effect list" where
  "handleAuth w ws session token =
     (let session1 = session\<lparr>authenticated := True\<rparr>;
          failed = (\<lambda>s es. (s, es @ sendError w ws ''Failed to spawn shell'' @ [WsClose ws]))
      in case spawn w \<lparr>shell = None, cwd = None, env = None, cols = Some 100, rows = Some 30\<rparr>
                (pty session1) of
           (Inl e, es0) \<Rightarrow> failed session1 es0
         | (Inr p0, es0) \<Rightarrow>
             let session2 = session1\<lparr>pty := p0\<rparr> in
             (case onData p0 ws of
                (Inl e, es1) \<Rightarrow> failed session2 (es0 @ es1)
              | (Inr p1, es1) \<Rightarrow>
                  (case onExit p1 ws of
                     (Inl e, es2) \<Rightarrow> failed session2 (es0 @ es1 @ es2)
                   | (Inr p2, es2) \<Rightarrow>
                       let shellType' =
                             or_string (case getProcess p2 of None \<Rightarrow> None
                                        | Some pr \<Rightarrow> shellType pr) ''sh''
                       in (session2,
                           es0 @ es1 @ es2 @
                           send w ws (ReadyMessage shellType' (os_homedir w))))))"

definition handleInput :: "SessionState \<Rightarrow> string \<Rightarrow> SessionState \<times> effect list" where
  "handleInput session data = (session, snd (pty_write (pty session) data))"

definition handleResize :: "SessionState \<Rightarrow> int \<Rightarrow> int \<Rightarrow> SessionState \<times> effect list" where
  "handleResize session c r = (session, snd (resize (pty session) c r))"

definition upload_complete :: "string \<Rightarrow> string" where
  "upload_complete filename =
     [CHR 0x0D, CHR 0x0A, CHR 0xE2, CHR 0x9C, CHR 0x85] @ '' Upload complete: '' @ filename @
     [CHR 0x0D, CHR 0x0A]"

definition Buffer_from :: "World \<Rightarrow> FileData \<Rightarrow> Buffer" where
  "Buffer_from w d = (case d of BufferData b \<Rightarrow> b | Base64Data s \<Rightarrow> base64_decode w s)"

text \<open>
  \<open>handleFileUpload\<close>: every throw inside the \<open>try\<close> block (\<open>path.basename\<close> of
  an undefined filename, a failing \<open>writeFileSync\<close>) ends in the error
  \<open>Upload failed\<close>.
\<close>

definition handleFileUpload ::
  "World \<Rightarrow> nat \<Rightarrow> SessionState \<Rightarrow> string option \<Rightarrow> FileData \<Rightarrow> SessionState \<times> effect list" where
  "handleFileUpload w ws session filename data =
     (case filename of
        None \<Rightarrow> (session, sendError w ws ''Upload failed'')
      | Some name \<Rightarrow>
          let cwd' = process_cwd w;
              safePath = resolve (process_cwd w) [cwd', basename name]
          in if \<not> prefix cwd' safePath then (session, sendError w ws ''Invalid path'')
             else
               let buffer = Buffer_from w data in
               if writeFileSync_throws w safePath
               then (session, [WriteFileSync safePath buffer] @ sendError w ws ''Upload failed'')
               else (session, [WriteFileSync safePath buffer] @
                              send w ws (OutputMessage (upload_complete name))))"

fun routeMessage :: "World \<Rightarrow> nat \<Rightarrow> SessionState \<Rightarrow> TerminalMessage \<Rightarrow> SessionState \<times> effect list" where
  "routeMessage w ws session (AuthMessage token) = handleAuth w ws session token"
| "routeMessage w ws session (InputMessage data) =
     (if authenticated session then handleInput session data else (session, []))"
| "routeMessage w ws session (ResizeMessage c r) =
     (if authenticated session then handleResize session c r else (session, []))"
| "routeMessage w ws session (FileUploadMessage filename data sz) =
     (if authenticated session then handleFileUpload w ws session filename data
      else (session, []))"
| "routeMessage w ws session _ = (session, [])"

subsection \<open>Frames\<close>

text \<open>\<open>buffer.readUInt32BE(0)\<close> throws a range error on fewer than four bytes.\<close>

definition readUInt32BE :: "Buffer \<Rightarrow> error + nat" where
  "readUInt32BE b =
     (if length b < 4 then Inl RangeError
      else Inr (of_char (b ! 0) * 2 ^ 24 + of_char (b ! 1) * 2 ^ 16 +
                of_char (b ! 2) * 2 ^ 8 + of_char (b ! 3)))"

text \<open>\<open>buffer.subarray(start, end)\<close> clamps both ends to the buffer.\<close>

definition subarray :: "Buffer \<Rightarrow> nat \<Rightarrow> nat \<Rightarrow> Buffer" where
  "subarray b start end' = drop start (take end' b)"

text \<open>The decoding part of \<open>handleMessage\<close>'s \<open>try\<close> block (a binary frame becomes a
  FILE\_UPLOAD message, a text frame is parsed as JSON).\<close>

definition decodeFrame :: "World \<Rightarrow> Buffer \<Rightarrow> bool \<Rightarrow> error + TerminalMessage" where
  "decodeFrame w data isBinary =
     (if isBinary then
        (case readUInt32BE data of
           Inl e \<Rightarrow> Inl e
         | Inr headerLength \<Rightarrow>
             let headerJson = subarray data 4 (4 + headerLength) in
             (case JSON_parse_header w headerJson of
                None \<Rightarrow> Inl SyntaxError
              | Some filename \<Rightarrow>
                  let fileData = subarray data (4 + headerLength) (length data)
                  in Inr (FileUploadMessage filename (BufferData fileData) (length fileData))))
      else
        (case JSON_parse_message w data of
           None \<Rightarrow> Inl SyntaxError
         | Some message \<Rightarrow> Inr message))"

text \<open>\<open>handleMessage\<close> after the rate limiter: the size check, then the \<open>try\<close>
  block with its \<open>catch\<close>.\<close>

definition processFrame ::
  "World \<Rightarrow> WebSocketHandler \<Rightarrow> nat \<Rightarrow> SessionState \<Rightarrow> Buffer \<Rightarrow> bool \<Rightarrow>
   WebSocketHandler \<times> effect list" where
  "processFrame w h ws session data isBinary =
     (if int (length data) > maxMessageSize h
      then (h\<lparr>sessions := AList.update ws session (sessions h)\<rparr>,
            sendError w ws ''Message too large'')
      else
        (case decodeFrame w data isBinary of
           Inl e \<Rightarrow> (h\<lparr>sessions := AList.update ws session (sessions h)\<rparr>,
                     sendError w ws ''Invalid message protocol'')
         | Inr message \<Rightarrow>
             (case routeMessage w ws session message of
                (session', es) \<Rightarrow>
                  (h\<lparr>sessions := AList.update ws session' (sessions h)\<rparr>, es))))"

definition handleMessage ::
  "World \<Rightarrow> WebSocketHandler \<Rightarrow> nat \<Rightarrow> Buffer \<Rightarrow> bool \<Rightarrow> WebSocketHandler \<times> effect list" where
  "handleMessage w h ws data isBinary =
     (case map_of (sessions h) ws of
        None \<Rightarrow> (h, [])
      | Some session \<Rightarrow>
          let now = Date_now w;
              minutesPassed = (now - lastMinute session) div 60000;
              session1 = (if minutesPassed > 0
                          then session\<lparr>messageCount := 0, lastMinute := now\<rparr>
                          else session);
              session2 = session1\<lparr>messageCount := messageCount session1 + 1\<rparr>
          in if messageCount session2 > rateLimit h
             then (h\<lparr>sessions := AList.update ws session2 (sessions h)\<rparr>,
                   sendError w ws ''Rate limit exceeded'')
             else processFrame w h ws session2 data isBinary)"

subsection \<open>Connections, liveness and teardown\<close>

definition handleConnection :: "World \<Rightarrow> WebSocketHandler \<Rightarrow> nat \<Rightarrow> string \<Rightarrow> WebSocketHandler" where
  "handleConnection w h ws sid =
     h\<lparr>sessions := AList.update ws
          \<lparr>pty = new_PTYManager sid, authenticated = False, messageCount = 0,
           lastMinute = Date_now w, isAlive = True\<rparr> (sessions h)\<rparr>"

text \<open>The \<open>pong\<close> callback registered by \<open>handleConnection\<close>.\<close>

definition handlePong :: "WebSocketHandler \<Rightarrow> nat \<Rightarrow> WebSocketHandler" where
  "handlePong h ws =
     (case map_of (sessions h) ws of
        None \<Rightarrow> h
      | Some session \<Rightarrow> h\<lparr>sessions := AList.update ws (session\<lparr>isAlive := True\<rparr>) (sessions h)\<rparr>)"

definition handleClose :: "World \<Rightarrow> WebSocketHandler \<Rightarrow> nat \<Rightarrow> WebSocketHandler \<times> effect list" where
  "handleClose w h ws =
     (case map_of (sessions h) ws of
        None \<Rightarrow> (h, [])
      | Some session \<Rightarrow>
          (h\<lparr>sessions := AList.delete ws (sessions h)\<rparr>, snd (kill w None (pty session))))"

definition handleError :: "World \<Rightarrow> WebSocketHandler \<Rightarrow> nat \<Rightarrow> WebSocketHandler \<times> effect list" where
  "handleError w h ws = handleClose w h ws"

text \<open>The body of the 30-second interval callback set up by the constructor, for one
  entry of the map and for the whole map.\<close>

definition heartbeat_session :: "nat \<times> SessionState \<Rightarrow> (nat \<times> SessionState) \<times> effect list" where
  "heartbeat_session e =
     (case e of (ws, session) \<Rightarrow>
        if isAlive session = False then ((ws, session), [WsTerminate ws])
        else ((ws, session\<lparr>isAlive := False\<rparr>), [WsPing ws]))"

definition heartbeat :: "WebSocketHandler \<Rightarrow> WebSocketHandler \<times> effect list" where
  "heartbeat h =
     (h\<lparr>sessions := map (\<lambda>e. fst (heartbeat_session e)) (sessions h)\<rparr>,
      concat (map (\<lambda>e. snd (heartbeat_session e)) (sessions h)))"

definition cleanup :: "World \<Rightarrow> WebSocketHandler \<Rightarrow> WebSocketHandler \<times> effect list" where
  "cleanup w h =
     (h\<lparr>sessions := []\<rparr>,
      concat (map (\<lambda>(ws, session). snd (kill w None (pty session)) @ [WsClose ws]) (sessions h)))"

text \<open>The callbacks of the handler as events, each with the world it runs in.\<close>

datatype event =
    Connection nat string
  | Message nat Buffer bool
  | Pong nat
  | Close nat
  | Error nat
  | Heartbeat

fun step :: "World \<Rightarrow> WebSocketHandler \<Rightarrow> event \<Rightarrow> WebSocketHandler \<times> effect list" where
  "step w h (Connection ws sid) = (handleConnection w h ws sid, [])"
| "step w h (Message ws data isBinary) = handleMessage w h ws data isBinary"
| "step w h (Pong ws) = (handlePong h ws, [])"
| "step w h (Close ws) = handleClose w h ws"
| "step w h (Error ws) = handleError w h ws"
| "step w h Heartbeat = heartbeat h"

fun run :: "WebSocketHandler \<Rightarrow> (World \<times> event) list \<Rightarrow> WebSocketHandler \<times> effect list" where
  "run h [] = (h, [])"
| "run h ((w, e) # es) =
     (case step w h e of
        (h1, out1) \<Rightarrow> (case run h1 es of (h2, out2) \<Rightarrow> (h2, out1 @ out2)))"

subsection \<open>Traces\<close>

text \<open>
  \<open>message_for ws e\<close>: the event is an inbound message on socket \<open>ws\<close>.
  \<open>stays_registered ws e\<close>: the event is neither a close, an error nor a new
  connection on socket \<open>ws\<close>. \<open>window_count ws evs\<close>: the number of inbound
  messages on socket \<open>ws\<close> among the events \<open>evs\<close>.
  \<open>quiet_for ws e\<close>: the event is neither a pong, a close, an error nor a new
  connection on socket \<open>ws\<close>, nor a heartbeat tick; such events are what can happen
  between two ticks to a session that does not acknowledge its probe.
  \<open>after_unanswered_probe h evs\<close>: the handler after one heartbeat tick followed by
  the events \<open>evs\<close>.
\<close>

fun message_for :: "nat \<Rightarrow> event \<Rightarrow> bool" where
  "message_for ws (Message ws' data isBinary) = (ws' = ws)"
| "message_for ws _ = False"

fun stays_registered :: "nat \<Rightarrow> event \<Rightarrow> bool" where
  "stays_registered ws (Connection ws' sid) = (ws' \<noteq> ws)"
| "stays_registered ws (Close ws') = (ws' \<noteq> ws)"
| "stays_registered ws (Error ws') = (ws' \<noteq> ws)"
| "stays_registered ws _ = True"

definition window_count :: "nat \<Rightarrow> (World \<times> event) list \<Rightarrow> int" where
  "window_count ws evs = int (length (filter (\<lambda>we. message_for ws (snd we)) evs))"

text \<open>
  What it means that an inbound frame is processed, given the session with its
  counter already updated (\<open>counted\<close>) and the result of handling the frame: a frame
  over the size limit is answered with \<open>Message too large\<close>; a frame that does not
  decode is answered with \<open>Invalid message protocol\<close>; a frame that decodes is
  routed, so that an INPUT message on an authenticated session with a shell is
  written to that shell.
\<close>

definition is_processed ::
  "World \<Rightarrow> WebSocketHandler \<Rightarrow> nat \<Rightarrow> SessionState \<Rightarrow> Buffer \<Rightarrow> bool \<Rightarrow>
   WebSocketHandler \<times> effect list \<Rightarrow> bool" where
  "is_processed w h ws counted data isBinary result =
     ((maxMessageSize h < int (length data) \<longrightarrow>
         result = (h\<lparr>sessions := AList.update ws counted (sessions h)\<rparr>,
                   if readyState_open w ws then [WsSend ws (ErrorMessage ''Message too large'')]
                   else [])) \<and>
      (int (length data) \<le> maxMessageSize h \<longrightarrow>
         (\<forall>e. decodeFrame w data isBinary = Inl e \<longrightarrow>
            result = (h\<lparr>sessions := AList.update ws counted (sessions h)\<rparr>,
                      if readyState_open w ws
                      then [WsSend ws (ErrorMessage ''Invalid message protocol'')] else [])) \<and>
         (\<forall>m. decodeFrame w data isBinary = Inr m \<longrightarrow>
            result = (h\<lparr>sessions := AList.update ws (fst (routeMessage w ws counted m))
                                     (sessions h)\<rparr>,
                      snd (routeMessage w ws counted m))) \<and>
         (\<forall>d p. decodeFrame w data isBinary = Inr (InputMessage d) \<and> authenticated counted \<and>
                ptyProcess (pty counted) = Some p \<longrightarrow>
            result = (h\<lparr>sessions := AList.update ws counted (sessions h)\<rparr>,
                      [PtyWrite (pid p) d]))))"

fun quiet_for :: "nat \<Rightarrow> event \<Rightarrow> bool" where
  "quiet_for ws (Connection ws' sid) = (ws' \<noteq> ws)"
| "quiet_for ws (Message ws' data isBinary) = True"
| "quiet_for ws (Pong ws') = (ws' \<noteq> ws)"
| "quiet_for ws (Close ws') = (ws' \<noteq> ws)"
| "quiet_for ws (Error ws') = (ws' \<noteq> ws)"
| "quiet_for ws Heartbeat = False"

definition after_unanswered_probe :: "WebSocketHandler \<Rightarrow> (World \<times> event) list \<Rightarrow> WebSocketHandler" where
  "after_unanswered_probe h evs = fst (run (fst (heartbeat h)) evs)"

section \<open>Sample values\<close>

text \<open>A world in which every library call succeeds and the transport is open, and a
  fresh session, for evaluating the model at concrete inputs.\<close>

definition world0 :: World where
  "world0 =
     \<lparr>Date_now = 1000, readyState_open = (\<lambda>ws. True), process_cwd = ''/srv/app'',
      process_env = [], os_homedir = ''/home/u'', os_username = ''u'', detectShell = ''/bin/sh'',
      pty_spawn = Some \<lparr>pid = 101, shellType = None\<rparr>, kill_throws = False,
      writeFileSync_throws = (\<lambda>p. False), JSON_parse_message = (\<lambda>s. None),
      JSON_parse_header = (\<lambda>s. None), base64_decode = (\<lambda>s. s)\<rparr>"

definition session0 :: SessionState where
  "session0 = \<lparr>pty = new_PTYManager ''s0'', authenticated = False, messageCount = 0,
      lastMinute = 0, isAlive = True\<rparr>"

text \<open>
  A world whose JSON parser knows one AUTH text frame and one upload header; a second
  world in which \<open>pty.spawn\<close> returns another process; an empty handler with the
  default limits; a binary frame of 20 bytes whose length field says 100; a session
  with a running shell and a handler holding it.
\<close>

definition auth_text :: string where
  \<open>auth_text = ''{"type":"auth","token":"t"}''\<close>

definition upload_header :: string where
  \<open>upload_header = ''{"filename":"x"}''\<close>

definition short_frame :: Buffer where
  "short_frame = [CHR 0x00, CHR 0x00, CHR 0x00, CHR 0x64] @ upload_header"

definition world_json :: World where
  "world_json = world0
     \<lparr>JSON_parse_message := (\<lambda>s. if s = auth_text then Some (AuthMessage ''t'') else None),
      JSON_parse_header := (\<lambda>s. if s = upload_header then Some (Some ''x'') else None)\<rparr>"

definition world_second :: World where
  "world_second = world_json\<lparr>pty_spawn := Some \<lparr>pid = 102, shellType = None\<rparr>\<rparr>"

definition handler0 :: WebSocketHandler where
  "handler0 = \<lparr>sessions = [], rateLimit = 2000, maxMessageSize = 20 * 1024 * 1024\<rparr>"

fun is_PtySpawn :: "effect \<Rightarrow> bool" where
  "is_PtySpawn (PtySpawn sh c r d e) = True"
| "is_PtySpawn _ = False"

fun is_PtyKill :: "effect \<Rightarrow> bool" where
  "is_PtyKill (PtyKill p sg) = True"
| "is_PtyKill _ = False"


definition live_session :: SessionState where
  "live_session = \<lparr>pty = \<lparr>ptyProcess = Some \<lparr>pid = 101, shellType = None\<rparr>, sessionId = ''s0''\<rparr>,
      authenticated = True, messageCount = 0, lastMinute = 0, isAlive = True\<rparr>"

definition limited_handler :: WebSocketHandler where
  "limited_handler = \<lparr>sessions = [(1, live_session)], rateLimit = 1, maxMessageSize = 100\<rparr>"

text \<open>
  HMAC-SHA256 under the secret \<open>secret\<close>, hex encoded, at the two payloads used below
  (the digests were computed with a standard implementation); a token with these
  fields is one that \<open>validateToken\<close> of a service with that secret can receive.
  \<open>nan_token\<close> has the fields \<open>x\<close>, \<open>y\<close> and the digest of \<open>x:y\<close>;
  \<open>dated_token\<close> has the fields \<open>1\<close>, \<open>9\<close> and the digest of \<open>1:9\<close>.
\<close>

definition hmac_secret :: "jsstring \<Rightarrow> jsstring" where
  "hmac_secret payload =
     (if payload = js ''x:y''
        then js ''4e1bfb8bed15fdfdaa4396d38f33f27698b520514c954045181f62efe0312e87''
      else if payload = js ''1:9''
        then js ''899f75cdd44ae58e152bc55bbd520ec304b7ccdd551b922b117f7818aec4ff45''
      else [])"

definition nan_token :: jsstring where
  "nan_token = js ''x:y:4e1bfb8bed15fdfdaa4396d38f33f27698b520514c954045181f62efe0312e87''"

definition dated_token :: jsstring where
  "dated_token = js ''1:9:899f75cdd44ae58e152bc55bbd520ec304b7ccdd551b922b117f7818aec4ff45''"

text \<open>A world in which the transport is not open (closing or closed).\<close>

definition world_closed :: World where
  "world_closed = world0\<lparr>readyState_open := (\<lambda>ws. False)\<rparr>"

text \<open>A world whose working directory is the root, where writing to the path \<open>/\<close>
  (a directory) throws.\<close>

definition world_root :: World where
  "world_root = world0\<lparr>process_cwd := ''/'', writeFileSync_throws := (\<lambda>p. p = ''/'')\<rparr>"

text \<open>
  A world whose JSON parser knows one INPUT text frame, the same world one minute
  (60000 ms) after the start of \<open>live_session\<close>'s window, and a handler whose session
  has used up its limit of one message.
\<close>

definition input_text :: string where
  \<open>input_text = ''{"type":"input","data":"ls"}''\<close>

definition world_input :: World where
  "world_input = world0
     \<lparr>JSON_parse_message := (\<lambda>s. if s = input_text then Some (InputMessage ''ls'') else None)\<rparr>"

definition world_minute :: World where
  "world_minute = world_input\<lparr>Date_now := 60000\<rparr>"

definition spent_handler :: WebSocketHandler where
  "spent_handler =
     \<lparr>sessions = [(1, live_session\<lparr>messageCount := 1\<rparr>)], rateLimit = 1, maxMessageSize = 100\<rparr>"

section \<open>Strings: lemmas\<close>

lemma split_on_nonempty: "split_on c s \<noteq> []"
  by (induction s) (auto split: list.splits)

lemma split_on_no_sep: "c \<notin> set s \<Longrightarrow> split_on c s = [s]"
  by (induction s) auto

lemma split_on_append: "split_on c (a @ c # b) = split_on c a @ split_on c b"
proof (induction a)
  case Nil
  show ?case by simp
next
  case (Cons x a)
  obtain p ps where "split_on c a = p # ps"
    using split_on_nonempty [of c a] by (cases "split_on c a") auto
  with Cons show ?case by simp
qed

section \<open>Token service: results\<close>

text \<open>
  What \<open>validateToken\<close> computes, for every signing function, clock value and input:
  true exactly when the string splits on \<open>:\<close> into exactly three fields, the third
  field equals the signature recomputed over the first two joined by \<open>:\<close>, and the
  clock is not past the parsed expiry, where an expiry field that does not parse as a
  number never counts as expired.
\<close>

lemma validateToken_iff:
  "validateToken createSignature now token = code_token_valid createSignature now token"
  unfolding validateToken_def code_token_valid_def Let_def
  by (simp split: option.split add: not_less)

lemma split_dated_token:
  "split_on 58 dated_token = [js ''1'', js ''9'', hmac_secret (js ''1:9'')]"
  by (simp add: dated_token_def js_def hmac_secret_def)

lemma validateToken_dated:
  "validateToken hmac_secret 9 dated_token = True \<and> validateToken hmac_secret 10 dated_token = False"
  by (simp add: validateToken_def split_dated_token parseInt_def is_space_def is_digit_def
        digits_value_def js_def)

lemma split_nan_token:
  "split_on 58 nan_token = [js ''x'', js ''y'', hmac_secret (js ''x:y'')]"
  by (simp add: nan_token_def js_def hmac_secret_def)

text \<open>
  C5 fails on the code. The token with the fields \<open>x\<close>, \<open>y\<close> and the HMAC-SHA256
  digest of \<open>x:y\<close> has exactly three fields and a matching signature, and its expiry
  field parses to \<open>NaN\<close>; \<open>validateToken\<close> returns true for it at every time (here
  at 0 and at 99999999999999), although the time is not at most the parsed expiry:
  the expiry check \<open>Date.now() > expiryTime\<close> never fails on \<open>NaN\<close>.
\<close>

theorem validateToken_accepts_nan_expiry:
  "split_on 58 nan_token = [js ''x'', js ''y'', hmac_secret (js ''x:y'')] \<and>
   parseInt (js ''y'') = None \<and>
   validateToken hmac_secret 0 nan_token = True \<and>
   validateToken hmac_secret 99999999999999 nan_token = True \<and>
   spec_token_valid hmac_secret 0 nan_token = False \<and>
   spec_token_valid hmac_secret 99999999999999 nan_token = False"
  by (simp add: validateToken_def spec_token_valid_def split_nan_token parseInt_def is_space_def
        is_digit_def js_def)

text \<open>
  The same holds for every signing function whose digest contains no colon (a hex
  digest never does): the token made of the fields \<open>x\<close>, \<open>y\<close> and the digest of
  \<open>x:y\<close> is accepted at every time.
\<close>

lemma validateToken_nan_general:
  assumes "58 \<notin> set (createSignature (js ''x:y''))"
  shows "validateToken createSignature now (js ''x:y:'' @ createSignature (js ''x:y'')) \<and>
         \<not> spec_token_valid createSignature now (js ''x:y:'' @ createSignature (js ''x:y''))"
proof -
  have "split_on 58 (js ''x:y:'' @ createSignature (js ''x:y'')) =
      [js ''x'', js ''y'', createSignature (js ''x:y'')]"
    using split_on_no_sep [OF assms] by (simp add: js_def)
  then show ?thesis
    by (simp add: validateToken_def spec_token_valid_def parseInt_def is_space_def is_digit_def
          js_def)
qed

section \<open>Pseudo-terminal manager: results\<close>

text \<open>
  C8. \<open>PTYManager.kill\<close> never throws; on a handle with no process (never spawned
  or already killed) it changes nothing and calls nothing; after a kill that succeeds
  the process reference is cleared, \<open>isAlive()\<close> is false and any further kill is a
  no-op.
\<close>

theorem kill_idempotent:
  "(\<exists>m' es. kill w sg m = (Inr m', es)) \<and>
   (\<not> pty_isAlive m \<longrightarrow> kill w sg m = (Inr m, [])) \<and>
   (pty_isAlive m \<and> \<not> kill_throws w \<longrightarrow>
      (\<exists>m' p. ptyProcess m = Some p \<and> kill w sg m = (Inr m', [PtyKill (pid p) sg]) \<and>
              \<not> pty_isAlive m' \<and> kill w' sg' m' = (Inr m', [])))"
  by (auto simp: kill_def pty_isAlive_def split: option.splits)

theorem kill_idempotent_witness:
  "pty_isAlive \<lparr>ptyProcess = Some \<lparr>pid = 7, shellType = None\<rparr>, sessionId = ''s''\<rparr> \<and>
   \<not> kill_throws world0 \<and>
   kill world0 None \<lparr>ptyProcess = Some \<lparr>pid = 7, shellType = None\<rparr>, sessionId = ''s''\<rparr> =
     (Inr \<lparr>ptyProcess = None, sessionId = ''s''\<rparr>, [PtyKill 7 None]) \<and>
   \<not> pty_isAlive \<lparr>ptyProcess = None, sessionId = ''s''\<rparr> \<and>
   kill world0 None \<lparr>ptyProcess = None, sessionId = ''s''\<rparr> =
     (Inr \<lparr>ptyProcess = None, sessionId = ''s''\<rparr>, [])"
  using kill_idempotent [of world0 None
      "\<lparr>ptyProcess = Some \<lparr>pid = 7, shellType = None\<rparr>, sessionId = ''s''\<rparr>" world0 None]
  by (simp add: kill_def pty_isAlive_def world0_def)

section \<open>Router: results\<close>

text \<open>
  C6. While the session is not authenticated, routing an INPUT, RESIZE or FILE\_UPLOAD
  message has no effect: nothing is written to the pty or to a file, nothing is sent,
  and the session state is unchanged.
\<close>

theorem unauthenticated_ignored:
  "\<not> authenticated session \<Longrightarrow>
   routeMessage w ws session (InputMessage d) = (session, []) \<and>
   routeMessage w ws session (ResizeMessage c r) = (session, []) \<and>
   routeMessage w ws session (FileUploadMessage f fd n) = (session, [])"
  by simp

theorem unauthenticated_ignored_witness:
  "\<not> authenticated session0 \<and>
   routeMessage world0 1 session0 (InputMessage ''ls'') = (session0, []) \<and>
   routeMessage world0 1 session0 (ResizeMessage 80 24) = (session0, []) \<and>
   routeMessage world0 1 session0 (FileUploadMessage (Some ''a.txt'') (BufferData ''x'') 1) = (session0, [])"
  using unauthenticated_ignored [of session0 world0 1 "''ls''" 80 24 "Some ''a.txt''" "BufferData ''x''" 1]
  by (simp add: session0_def)

text \<open>
  C10. Processing an AUTH message never looks at its token: two AUTH messages that
  differ only in the token give the same next state and the same effects on the same
  session; the session is authenticated afterwards and a shell spawn (100 columns,
  30 rows) is attempted, whatever the token.
\<close>

theorem auth_ignores_token:
  "routeMessage w ws session (AuthMessage token1) = routeMessage w ws session (AuthMessage token2) \<and>
   authenticated (fst (routeMessage w ws session (AuthMessage token1))) \<and>
   (\<exists>sh d e rest. snd (routeMessage w ws session (AuthMessage token1)) = PtySpawn sh 100 30 d e # rest)"
  by (auto simp: handleAuth_def spawn_def onData_def onExit_def Let_def or_int_def
           split: option.splits prod.splits sum.splits)

section \<open>Output throttle: results\<close>

lemma throttle_run_append:
  "throttle_run w ws t (xs @ ys) =
     (case throttle_run w ws t xs of
        (t1, out1) \<Rightarrow> (case throttle_run w ws t1 ys of (t2, out2) \<Rightarrow> (t2, out1 @ out2)))"
  by (induction xs arbitrary: t) (auto split: prod.splits)

lemma throttle_pending_chunks:
  "flushTimeout t \<Longrightarrow> length (outputBuffer t) + length (concat chunks) \<le> 8192 \<Longrightarrow>
   throttle_run w ws t (map ShellData chunks) =
     (t\<lparr>outputBuffer := outputBuffer t @ concat chunks\<rparr>, [])"
proof (induction chunks arbitrary: t)
  case Nil
  then show ?case by simp
next
  case (Cons c cs)
  let ?t1 = "t\<lparr>outputBuffer := outputBuffer t @ c\<rparr>"
  have step: "onData_callback w ws t c = (?t1, [])"
    using Cons.prems by (simp add: onData_callback_def Let_def)
  have "throttle_run w ws ?t1 (map ShellData cs) =
          (?t1\<lparr>outputBuffer := outputBuffer ?t1 @ concat cs\<rparr>, [])"
    using Cons.prems by (intro Cons.IH) simp_all
  with step show ?case by simp
qed

lemma throttle_burst:
  assumes "length (concat chunks) \<le> 8192" "chunks \<noteq> []"
  shows "throttle_run w ws new_OutputThrottle (map ShellData chunks) =
           (\<lparr>outputBuffer = concat chunks, flushTimeout = True\<rparr>, [SetTimeout 5])"
proof -
  obtain c cs where cs: "chunks = c # cs" using assms(2) by (cases chunks) auto
  let ?t1 = "\<lparr>outputBuffer = c, flushTimeout = True\<rparr>"
  have step: "onData_callback w ws new_OutputThrottle c = (?t1, [SetTimeout 5])"
    using assms(1) cs by (simp add: onData_callback_def new_OutputThrottle_def Let_def)
  have "throttle_run w ws ?t1 (map ShellData cs) =
          (?t1\<lparr>outputBuffer := outputBuffer ?t1 @ concat cs\<rparr>, [])"
    using assms(1) cs by (intro throttle_pending_chunks) simp_all
  with step cs show ?thesis by simp
qed

text \<open>
  C4 (as the code has it). A burst of shell writes into a fresh throttle, non-empty
  and of at most 8192 characters in total, all arriving before the 5 ms timer fires,
  sets that timer once; when the timer fires, exactly one OUTPUT frame with their
  concatenation in order is emitted if the transport is open, and none if it is not;
  the buffer is cleared in both cases. A write that brings the buffer to more than
  8192 characters cancels a pending timer and flushes at once, with no delay: exactly
  one OUTPUT frame with the whole buffer if the transport is open, none if it is not;
  the buffer is cleared in both cases.
\<close>

theorem output_coalescing:
  "(0 < length (concat chunks) \<and> length (concat chunks) \<le> 8192 \<longrightarrow>
      throttle_run w ws new_OutputThrottle (map ShellData chunks @ [TimerFired]) =
        (new_OutputThrottle,
         SetTimeout 5 #
         (if readyState_open w ws then [WsSend ws (OutputMessage (concat chunks))] else []))) \<and>
   (length (outputBuffer t @ data) > 8192 \<longrightarrow>
      onData_callback w ws t data =
        (\<lparr>outputBuffer = [], flushTimeout = False\<rparr>,
         (if flushTimeout t then [ClearTimeout] else []) @
         (if readyState_open w ws then [WsSend ws (OutputMessage (outputBuffer t @ data))]
          else [])))"
proof (intro conjI impI)
  assume a: "0 < length (concat chunks) \<and> length (concat chunks) \<le> 8192"
  then have ne: "chunks \<noteq> []" by auto
  have fl: "flush w ws \<lparr>outputBuffer = concat chunks, flushTimeout = True\<rparr> =
      (new_OutputThrottle,
       if readyState_open w ws then [WsSend ws (OutputMessage (concat chunks))] else [])"
    using a by (simp add: flush_def send_def new_OutputThrottle_def)
  show "throttle_run w ws new_OutputThrottle (map ShellData chunks @ [TimerFired]) =
        (new_OutputThrottle,
         SetTimeout 5 #
         (if readyState_open w ws then [WsSend ws (OutputMessage (concat chunks))] else []))"
    using a ne fl by (simp add: throttle_run_append throttle_burst)
next
  assume b: "length (outputBuffer t @ data) > 8192"
  then show "onData_callback w ws t data =
        (\<lparr>outputBuffer = [], flushTimeout = False\<rparr>,
         (if flushTimeout t then [ClearTimeout] else []) @
         (if readyState_open w ws then [WsSend ws (OutputMessage (outputBuffer t @ data))]
          else []))"
    by (auto simp add: onData_callback_def flush_def send_def Let_def)
qed

theorem output_coalescing_witness:
  "throttle_run world0 1 new_OutputThrottle (map ShellData [''ab'', ''c''] @ [TimerFired]) =
     (new_OutputThrottle, [SetTimeout 5, WsSend 1 (OutputMessage ''abc'')]) \<and>
   throttle_run world_closed 1 new_OutputThrottle (map ShellData [''ab'', ''c''] @ [TimerFired]) =
     (new_OutputThrottle, [SetTimeout 5]) \<and>
   onData_callback world0 1 \<lparr>outputBuffer = ''b'', flushTimeout = True\<rparr>
       (replicate 8192 CHR ''a'') =
     (\<lparr>outputBuffer = [], flushTimeout = False\<rparr>,
      [ClearTimeout, WsSend 1 (OutputMessage (''b'' @ replicate 8192 CHR ''a''))]) \<and>
   onData_callback world_closed 1 new_OutputThrottle (replicate 8193 CHR ''a'') =
     (\<lparr>outputBuffer = [], flushTimeout = False\<rparr>, [])"
  using output_coalescing [of "[''ab'', ''c'']" world0 1 "\<lparr>outputBuffer = ''b'', flushTimeout = True\<rparr>"
            "replicate 8192 CHR ''a''"]
        output_coalescing [of "[''ab'', ''c'']" world_closed 1 new_OutputThrottle
            "replicate 8193 CHR ''a''"]
  by (simp add: world0_def world_closed_def new_OutputThrottle_def)

text \<open>
  C4 as stated fails at the boundary: a single write of exactly 8192 characters (at
  least 8 KiB) is not flushed at once; it only schedules the 5 ms timer.
\<close>

theorem output_threshold_counterexample:
  "length (replicate 8192 CHR ''a'') \<ge> 8192 \<and>
   onData_callback world0 1 new_OutputThrottle (replicate 8192 CHR ''a'') =
     (\<lparr>outputBuffer = replicate 8192 CHR ''a'', flushTimeout = True\<rparr>, [SetTimeout 5])"
  by (simp add: onData_callback_def new_OutputThrottle_def Let_def)


section \<open>Handler: lemmas\<close>

lemma minutesPassed_pos: "(0 < (a - b) div 60000) = (60000 \<le> a - (b::int))"
  by (simp add: pos_imp_zdiv_pos_iff)

lemma handleAuth_frame:
  "handleAuth w ws s tok = (s', es) \<Longrightarrow>
   messageCount s' = messageCount s \<and> lastMinute s' = lastMinute s \<and> isAlive s' = isAlive s"
  by (auto simp: handleAuth_def Let_def split: prod.splits sum.splits)

lemma routeMessage_frame:
  "routeMessage w ws s m = (s', es) \<Longrightarrow>
   messageCount s' = messageCount s \<and> lastMinute s' = lastMinute s \<and> isAlive s' = isAlive s"
  by (cases m)
     (auto simp: handleInput_def handleResize_def handleFileUpload_def Let_def
           dest: handleAuth_frame split: if_splits option.splits)

lemma processFrame_frame:
  assumes "processFrame w h ws s data bin = (h', es)"
  shows "rateLimit h' = rateLimit h \<and> maxMessageSize h' = maxMessageSize h \<and>
         (\<exists>s'. sessions h' = AList.update ws s' (sessions h) \<and>
               messageCount s' = messageCount s \<and> lastMinute s' = lastMinute s \<and>
               isAlive s' = isAlive s)"
proof (cases "int (length data) > maxMessageSize h")
  case True
  with assms show ?thesis by (auto simp: processFrame_def)
next
  case False
  show ?thesis
  proof (cases "decodeFrame w data bin")
    case (Inl e)
    with False assms show ?thesis by (auto simp: processFrame_def)
  next
    case (Inr m)
    obtain s' es' where r: "routeMessage w ws s m = (s', es')" by (cases "routeMessage w ws s m")
    from routeMessage_frame [OF r] False Inr r assms show ?thesis
      by (auto simp: processFrame_def)
  qed
qed

lemma handleMessage_frame:
  assumes "map_of (sessions h) ws = Some s" "handleMessage w h ws data bin = (h', es)"
  shows "rateLimit h' = rateLimit h \<and> maxMessageSize h' = maxMessageSize h \<and>
         (\<exists>s'. sessions h' = AList.update ws s' (sessions h) \<and> isAlive s' = isAlive s \<and>
               (Date_now w - lastMinute s < 60000 \<longrightarrow>
                  messageCount s' = messageCount s + 1 \<and> lastMinute s' = lastMinute s))"
proof -
  let ?s1 = "if 60000 \<le> Date_now w - lastMinute s
             then s\<lparr>messageCount := 0, lastMinute := Date_now w\<rparr> else s"
  let ?s2 = "?s1\<lparr>messageCount := messageCount ?s1 + 1\<rparr>"
  show ?thesis
  proof (cases "messageCount ?s2 > rateLimit h")
    case True
    then have "handleMessage w h ws data bin =
        (h\<lparr>sessions := AList.update ws ?s2 (sessions h)\<rparr>, sendError w ws ''Rate limit exceeded'')"
      using assms(1) by (simp add: handleMessage_def Let_def minutesPassed_pos)
    with assms(2) have "h' = h\<lparr>sessions := AList.update ws ?s2 (sessions h)\<rparr>" by simp
    then show ?thesis by (intro conjI exI [of _ ?s2]) auto
  next
    case False
    then have "handleMessage w h ws data bin = processFrame w h ws ?s2 data bin"
      using assms(1) by (simp add: handleMessage_def Let_def minutesPassed_pos)
    with assms(2) have "processFrame w h ws ?s2 data bin = (h', es)" by simp
    from processFrame_frame [OF this] obtain s' where
      "rateLimit h' = rateLimit h" "maxMessageSize h' = maxMessageSize h"
      "sessions h' = AList.update ws s' (sessions h)"
      "messageCount s' = messageCount ?s2" "lastMinute s' = lastMinute ?s2"
      "isAlive s' = isAlive ?s2"
      by auto
    then show ?thesis by (intro conjI exI [of _ s']) (auto split: if_splits)
  qed
qed

lemma heartbeat_keys:
  "map fst (sessions (fst (heartbeat h))) = map fst (sessions h)"
  by (simp add: heartbeat_def heartbeat_session_def split: prod.splits if_splits)

lemma heartbeat_lookup_aux:
  "map_of (map (\<lambda>e. fst (heartbeat_session e)) al) ws =
     map_option (\<lambda>s. if isAlive s then s\<lparr>isAlive := False\<rparr> else s) (map_of al ws)"
  by (induction al) (auto simp: heartbeat_session_def)

lemma heartbeat_lookup:
  "map_of (sessions (fst (heartbeat h))) ws =
     map_option (\<lambda>s. if isAlive s then s\<lparr>isAlive := False\<rparr> else s) (map_of (sessions h) ws)"
  by (simp add: heartbeat_def heartbeat_lookup_aux)

lemma heartbeat_session_snd:
  "snd (heartbeat_session (k, v)) = (if isAlive v then [WsPing k] else [WsTerminate k])"
  by (simp add: heartbeat_session_def)

lemma heartbeat_terminate_aux:
  "WsTerminate ws \<in> set (concat (map (\<lambda>e. snd (heartbeat_session e)) al)) \<longleftrightarrow>
     (\<exists>s. (ws, s) \<in> set al \<and> \<not> isAlive s)"
  by (induction al) (auto simp: heartbeat_session_snd split: if_splits)

lemma heartbeat_ping_aux:
  "WsPing ws \<in> set (concat (map (\<lambda>e. snd (heartbeat_session e)) al)) \<longleftrightarrow>
     (\<exists>s. (ws, s) \<in> set al \<and> isAlive s)"
  by (induction al) (auto simp: heartbeat_session_snd split: if_splits)

lemma heartbeat_terminates:
  "WsTerminate ws \<in> set (snd (heartbeat h)) \<longleftrightarrow> (\<exists>s. (ws, s) \<in> set (sessions h) \<and> \<not> isAlive s)"
  unfolding heartbeat_def snd_conv by (rule heartbeat_terminate_aux)

lemma heartbeat_pings:
  "WsPing ws \<in> set (snd (heartbeat h)) \<longleftrightarrow> (\<exists>s. (ws, s) \<in> set (sessions h) \<and> isAlive s)"
  unfolding heartbeat_def snd_conv by (rule heartbeat_ping_aux)

section \<open>Rate limiting: results\<close>

lemma processFrame_is_processed:
  "is_processed w h ws counted data bin (processFrame w h ws counted data bin)"
  by (auto simp: is_processed_def processFrame_def sendError_def send_def handleInput_def
        pty_write_def split: sum.splits prod.splits)

lemma handleMessage_other:
  assumes "map_of (sessions h) ws = Some s" "ws' \<noteq> ws"
  shows "map_of (sessions (fst (handleMessage w h ws' data bin))) ws = Some s \<and>
         rateLimit (fst (handleMessage w h ws' data bin)) = rateLimit h \<and>
         maxMessageSize (fst (handleMessage w h ws' data bin)) = maxMessageSize h"
proof (cases "map_of (sessions h) ws'")
  case None
  with assms show ?thesis by (simp add: handleMessage_def)
next
  case (Some s0)
  obtain h' es where r: "handleMessage w h ws' data bin = (h', es)"
    by (cases "handleMessage w h ws' data bin")
  from handleMessage_frame [OF Some r] obtain s1 where
    "rateLimit h' = rateLimit h" "maxMessageSize h' = maxMessageSize h"
    "sessions h' = AList.update ws' s1 (sessions h)"
    by auto
  with r assms show ?thesis by (simp add: update_conv')
qed

lemma step_counts:
  assumes reg: "map_of (sessions h) ws = Some s" and st: "stays_registered ws e"
    and win: "message_for ws e \<longrightarrow> Date_now w - lastMinute s < 60000"
  shows "rateLimit (fst (step w h e)) = rateLimit h \<and>
         maxMessageSize (fst (step w h e)) = maxMessageSize h \<and>
         (\<exists>s'. map_of (sessions (fst (step w h e))) ws = Some s' \<and>
               messageCount s' = messageCount s + (if message_for ws e then 1 else 0) \<and>
               lastMinute s' = lastMinute s)"
proof (cases e)
  case (Connection ws' sid)
  with reg st show ?thesis by (simp add: handleConnection_def update_conv')
next
  case (Message ws' data bin)
  show ?thesis
  proof (cases "ws' = ws")
    case True
    obtain h' es where r: "handleMessage w h ws data bin = (h', es)"
      by (cases "handleMessage w h ws data bin")
    from win Message True have inw: "Date_now w - lastMinute s < 60000" by simp
    from handleMessage_frame [OF reg r] inw obtain s1 where
      "rateLimit h' = rateLimit h" "maxMessageSize h' = maxMessageSize h"
      "sessions h' = AList.update ws s1 (sessions h)"
      "messageCount s1 = messageCount s + 1" "lastMinute s1 = lastMinute s"
      by auto
    with Message True r show ?thesis by (simp add: update_conv')
  next
    case False
    with Message handleMessage_other [OF reg False, of w data bin] show ?thesis by simp
  qed
next
  case (Pong ws')
  with reg show ?thesis
    by (cases "ws' = ws") (auto simp: handlePong_def update_conv' split: option.split)
next
  case (Close ws')
  with reg st show ?thesis
    by (simp add: handleClose_def delete_conv' split: option.split)
next
  case (Error ws')
  with reg st show ?thesis
    by (simp add: handleError_def handleClose_def delete_conv' split: option.split)
next
  case Heartbeat
  with reg show ?thesis
    by (simp add: heartbeat_lookup) (simp add: heartbeat_def)
qed

lemma run_counts:
  "map_of (sessions h) ws = Some s \<Longrightarrow>
   \<forall>(w', e) \<in> set evs. stays_registered ws e \<and>
      (message_for ws e \<longrightarrow> Date_now w' - lastMinute s < 60000) \<Longrightarrow>
   rateLimit (fst (run h evs)) = rateLimit h \<and>
   maxMessageSize (fst (run h evs)) = maxMessageSize h \<and>
   (\<exists>s'. map_of (sessions (fst (run h evs))) ws = Some s' \<and>
         messageCount s' = messageCount s + window_count ws evs \<and>
         lastMinute s' = lastMinute s)"
proof (induction evs arbitrary: h s)
  case Nil
  then show ?case by (simp add: window_count_def)
next
  case (Cons we evs)
  obtain w e where we: "we = (w, e)" by (cases we)
  from Cons.prems(2) we have st: "stays_registered ws e"
    and win: "message_for ws e \<longrightarrow> Date_now w - lastMinute s < 60000" by auto
  from step_counts [OF Cons.prems(1) st win] obtain s1 where
    s1: "rateLimit (fst (step w h e)) = rateLimit h"
        "maxMessageSize (fst (step w h e)) = maxMessageSize h"
        "map_of (sessions (fst (step w h e))) ws = Some s1"
        "messageCount s1 = messageCount s + (if message_for ws e then 1 else 0)"
        "lastMinute s1 = lastMinute s"
    by auto
  have "\<forall>(w', e) \<in> set evs. stays_registered ws e \<and>
      (message_for ws e \<longrightarrow> Date_now w' - lastMinute s1 < 60000)"
    using Cons.prems(2) s1(5) by auto
  from Cons.IH [OF s1(3) this] obtain s2 where
    s2: "rateLimit (fst (run (fst (step w h e)) evs)) = rateLimit (fst (step w h e))"
        "maxMessageSize (fst (run (fst (step w h e)) evs)) = maxMessageSize (fst (step w h e))"
        "map_of (sessions (fst (run (fst (step w h e)) evs))) ws = Some s2"
        "messageCount s2 = messageCount s1 + window_count ws evs"
        "lastMinute s2 = lastMinute s1"
    by auto
  have r: "fst (run h (we # evs)) = fst (run (fst (step w h e)) evs)"
    using we by (simp split: prod.splits)
  have wc: "window_count ws (we # evs) = (if message_for ws e then 1 else 0) + window_count ws evs"
    using we by (simp add: window_count_def)
  show ?case
    unfolding r wc using s1 s2 by auto
qed

lemmas handle_defs =
  handleMessage_def processFrame_def decodeFrame_def sendError_def send_def Let_def
  routeMessage.simps handleInput_def pty_write_def

text \<open>
  C7 (as the code has it). Let \<open>evs\<close> be any events that keep the session registered
  (no close, error or reconnection of its socket), its own inbound messages among
  them all less than a minute (60000 ms) after the start of its window. After them
  the session is still registered, its counter has grown by the number of its own
  messages and the window start is unchanged; so, from a counter of zero at the
  window's start, the counter is the number of messages of the window. For the next
  message of the session: less than a minute after the window's start and with a
  counter below \<open>rateLimit\<close>, it is processed (size check, decoding, routing: an
  INPUT message reaches the shell); less than a minute after the window's start and
  with a counter of \<open>rateLimit\<close> or more, it is answered with the error
  \<open>Rate limit exceeded\<close> if the transport is open, and in any case dropped (its
  content is never looked at, nothing is closed, the session stays registered, the
  counter goes up); a minute or more (60000 ms or more) after the window's start, the
  counter restarts at this message, the window starts at the current time, and the
  message is processed if \<open>rateLimit\<close> is at least 1 (and rate limited otherwise).
\<close>

theorem rate_limiting:
  fixes h :: WebSocketHandler and s :: SessionState and ws :: nat
    and evs :: "(World \<times> event) list"
  defines "h' \<equiv> fst (run h evs)"
  defines "n \<equiv> messageCount s + window_count ws evs"
  defines "limited \<equiv> \<lambda>w. if readyState_open w ws
                            then [WsSend ws (ErrorMessage ''Rate limit exceeded'')] else []"
  assumes "map_of (sessions h) ws = Some s"
    and "\<forall>(w', e) \<in> set evs. stays_registered ws e \<and>
           (message_for ws e \<longrightarrow> Date_now w' - lastMinute s < 60000)"
  shows "\<exists>s'. map_of (sessions h') ws = Some s' \<and>
     messageCount s' = n \<and> lastMinute s' = lastMinute s \<and>
     (Date_now w - lastMinute s < 60000 \<and> n < rateLimit h \<longrightarrow>
        is_processed w h' ws (s'\<lparr>messageCount := n + 1\<rparr>) data bin
          (handleMessage w h' ws data bin)) \<and>
     (Date_now w - lastMinute s < 60000 \<and> rateLimit h \<le> n \<longrightarrow>
        handleMessage w h' ws data bin =
          (h'\<lparr>sessions := AList.update ws (s'\<lparr>messageCount := n + 1\<rparr>) (sessions h')\<rparr>,
           limited w)) \<and>
     (60000 \<le> Date_now w - lastMinute s \<and> 1 \<le> rateLimit h \<longrightarrow>
        is_processed w h' ws (s'\<lparr>lastMinute := Date_now w, messageCount := 1\<rparr>) data bin
          (handleMessage w h' ws data bin)) \<and>
     (60000 \<le> Date_now w - lastMinute s \<and> rateLimit h < 1 \<longrightarrow>
        handleMessage w h' ws data bin =
          (h'\<lparr>sessions := AList.update ws (s'\<lparr>lastMinute := Date_now w, messageCount := 1\<rparr>)
                              (sessions h')\<rparr>,
           limited w))"
proof -
  from run_counts [OF assms(4) assms(5)] obtain s' where
    s': "rateLimit h' = rateLimit h" "maxMessageSize h' = maxMessageSize h"
        "map_of (sessions h') ws = Some s'"
        "messageCount s' = n" "lastMinute s' = lastMinute s"
    unfolding h'_def n_def by blast
  have under: "handleMessage w h' ws data bin =
      processFrame w h' ws (s'\<lparr>messageCount := n + 1\<rparr>) data bin"
    if "Date_now w - lastMinute s < 60000 \<and> n < rateLimit h"
    using that s' by (simp add: handleMessage_def Let_def minutesPassed_pos)
  have over: "handleMessage w h' ws data bin =
      (h'\<lparr>sessions := AList.update ws (s'\<lparr>messageCount := n + 1\<rparr>) (sessions h')\<rparr>, limited w)"
    if "Date_now w - lastMinute s < 60000 \<and> rateLimit h \<le> n"
    using that s'
    by (simp add: handleMessage_def Let_def minutesPassed_pos sendError_def send_def limited_def)
  have restart: "handleMessage w h' ws data bin =
      processFrame w h' ws (s'\<lparr>lastMinute := Date_now w, messageCount := 1\<rparr>) data bin"
    if "60000 \<le> Date_now w - lastMinute s \<and> 1 \<le> rateLimit h"
    using that s' by (simp add: handleMessage_def Let_def minutesPassed_pos)
  have never: "handleMessage w h' ws data bin =
      (h'\<lparr>sessions := AList.update ws (s'\<lparr>lastMinute := Date_now w, messageCount := 1\<rparr>)
                          (sessions h')\<rparr>, limited w)"
    if "60000 \<le> Date_now w - lastMinute s \<and> rateLimit h < 1"
    using that s'
    by (simp add: handleMessage_def Let_def minutesPassed_pos sendError_def send_def limited_def)
  show ?thesis
  proof (intro exI [of _ s'] conjI impI)
    show "map_of (sessions h') ws = Some s'" by (rule s'(3))
    show "messageCount s' = n" by (rule s'(4))
    show "lastMinute s' = lastMinute s" by (rule s'(5))
  next
    assume a: "Date_now w - lastMinute s < 60000 \<and> n < rateLimit h"
    show "is_processed w h' ws (s'\<lparr>messageCount := n + 1\<rparr>) data bin
          (handleMessage w h' ws data bin)"
      unfolding under [OF a] by (rule processFrame_is_processed)
  next
    assume a: "Date_now w - lastMinute s < 60000 \<and> rateLimit h \<le> n"
    then show "handleMessage w h' ws data bin =
          (h'\<lparr>sessions := AList.update ws (s'\<lparr>messageCount := n + 1\<rparr>) (sessions h')\<rparr>,
           limited w)"
      by (rule over)
  next
    assume a: "60000 \<le> Date_now w - lastMinute s \<and> 1 \<le> rateLimit h"
    show "is_processed w h' ws (s'\<lparr>lastMinute := Date_now w, messageCount := 1\<rparr>) data bin
          (handleMessage w h' ws data bin)"
      unfolding restart [OF a] by (rule processFrame_is_processed)
  next
    assume a: "60000 \<le> Date_now w - lastMinute s \<and> rateLimit h < 1"
    then show "handleMessage w h' ws data bin =
          (h'\<lparr>sessions := AList.update ws (s'\<lparr>lastMinute := Date_now w, messageCount := 1\<rparr>)
                              (sessions h')\<rparr>,
           limited w)"
      by (rule never)
  qed
qed

theorem rate_limiting_witness:
  "map_of (sessions limited_handler) 1 = Some live_session \<and> messageCount live_session = 0 \<and>
   rateLimit limited_handler = 1 \<and>
   stays_registered 1 (Message 1 input_text False) \<and> stays_registered 1 Heartbeat \<and>
   stays_registered 1 (Message 2 input_text False) \<and>
   message_for 1 (Message 1 input_text False) \<and>
   Date_now world_input - lastMinute live_session < 60000 \<and>
   handleMessage world_input limited_handler 1 input_text False =
     (limited_handler\<lparr>sessions := [(1, live_session\<lparr>messageCount := 1\<rparr>)]\<rparr>, [PtyWrite 101 ''ls'']) \<and>
   handleMessage world_input
     (fst (run limited_handler
        [(world_input, Message 2 input_text False), (world_input, Message 1 input_text False),
         (world_input, Heartbeat)])) 1 input_text False =
     (limited_handler
        \<lparr>sessions := [(1, live_session\<lparr>messageCount := 2, isAlive := False\<rparr>)]\<rparr>,
      [WsSend 1 (ErrorMessage ''Rate limit exceeded'')]) \<and>
   handleMessage world_minute
     (fst (run limited_handler
        [(world_input, Message 2 input_text False), (world_input, Message 1 input_text False),
         (world_input, Heartbeat)])) 1 input_text False =
     (limited_handler
        \<lparr>sessions := [(1, live_session\<lparr>messageCount := 1, lastMinute := 60000, isAlive := False\<rparr>)]\<rparr>,
      [PtyWrite 101 ''ls''])"
  using rate_limiting [where h = limited_handler and ws = 1 and s = live_session
      and evs = "[(world_input, Message 2 input_text False),
                  (world_input, Message 1 input_text False), (world_input, Heartbeat)]"
      and w = world_input and data = input_text and bin = False]
  by (simp add: limited_handler_def live_session_def world_input_def world_minute_def world0_def
        input_text_def handle_defs heartbeat_def heartbeat_session_def)

text \<open>
  C7 as stated fails at the boundary: exactly one minute (60000 ms, not more than one
  minute) after the window's start, a message of a session that has used up its limit
  is not answered with an error: the window restarts and the message is processed.
\<close>

theorem rate_window_boundary_counterexample:
  "Date_now world_minute - lastMinute (live_session\<lparr>messageCount := 1\<rparr>) = 60000 \<and>
   map_of (sessions spent_handler) 1 = Some (live_session\<lparr>messageCount := 1\<rparr>) \<and>
   rateLimit spent_handler = 1 \<and>
   handleMessage world_minute spent_handler 1 input_text False =
     (spent_handler\<lparr>sessions := [(1, live_session\<lparr>messageCount := 1, lastMinute := 60000\<rparr>)]\<rparr>,
      [PtyWrite 101 ''ls''])"
  by (simp add: spent_handler_def live_session_def world_input_def world_minute_def world0_def
        input_text_def handle_defs)

section \<open>Heartbeat: results\<close>

lemma step_distinct:
  assumes "distinct (map fst (sessions h))"
  shows "distinct (map fst (sessions (fst (step w h e))))"
proof (cases e)
  case (Connection ws' sid)
  with assms show ?thesis by (simp add: handleConnection_def distinct_update)
next
  case (Message ws' data bin)
  show ?thesis
  proof (cases "map_of (sessions h) ws'")
    case None
    with Message assms show ?thesis by (simp add: handleMessage_def)
  next
    case (Some s0)
    obtain h' es where r: "handleMessage w h ws' data bin = (h', es)"
      by (cases "handleMessage w h ws' data bin")
    from handleMessage_frame [OF Some r] obtain s1 where
      "sessions h' = AList.update ws' s1 (sessions h)" by auto
    with Message r assms show ?thesis by (simp add: distinct_update)
  qed
next
  case (Pong ws')
  with assms show ?thesis
    by (simp add: handlePong_def distinct_update split: option.split)
next
  case (Close ws')
  with assms show ?thesis
    by (simp add: handleClose_def distinct_delete split: option.split)
next
  case (Error ws')
  with assms show ?thesis
    by (simp add: handleError_def handleClose_def distinct_delete split: option.split)
next
  case Heartbeat
  with assms show ?thesis by (simp add: heartbeat_keys)
qed

lemma step_quiet:
  assumes "map_of (sessions h) ws = Some s" "quiet_for ws e"
  shows "\<exists>s'. map_of (sessions (fst (step w h e))) ws = Some s' \<and> isAlive s' = isAlive s"
proof (cases e)
  case (Connection ws' sid)
  with assms show ?thesis
    by (simp add: handleConnection_def update_conv')
next
  case (Message ws' data bin)
  show ?thesis
  proof (cases "map_of (sessions h) ws'")
    case None
    with Message assms show ?thesis by (simp add: handleMessage_def)
  next
    case (Some s0)
    obtain h' es where r: "handleMessage w h ws' data bin = (h', es)"
      by (cases "handleMessage w h ws' data bin")
    from handleMessage_frame [OF Some r] obtain s1 where
      s1: "sessions h' = AList.update ws' s1 (sessions h)" "isAlive s1 = isAlive s0"
      by auto
    show ?thesis
    proof (cases "ws' = ws")
      case True
      with Message r s1 Some assms show ?thesis
        by (simp add: update_conv')
    next
      case False
      with Message r s1 assms show ?thesis
        by (simp add: update_conv')
    qed
  qed
next
  case (Pong ws')
  with assms show ?thesis
    by (simp add: handlePong_def update_conv' split: option.split)
next
  case (Close ws')
  with assms show ?thesis
    by (simp add: handleClose_def delete_conv' split: option.split)
next
  case (Error ws')
  with assms show ?thesis
    by (simp add: handleError_def handleClose_def delete_conv' split: option.split)
next
  case Heartbeat
  with assms show ?thesis by simp
qed

lemma run_quiet:
  "distinct (map fst (sessions h)) \<Longrightarrow> map_of (sessions h) ws = Some s \<Longrightarrow>
   \<forall>(w', e) \<in> set evs. quiet_for ws e \<Longrightarrow>
   distinct (map fst (sessions (fst (run h evs)))) \<and>
   (\<exists>s'. map_of (sessions (fst (run h evs))) ws = Some s' \<and> isAlive s' = isAlive s)"
proof (induction evs arbitrary: h s)
  case Nil
  then show ?case by simp
next
  case (Cons we evs)
  obtain w e where we: "we = (w, e)" by (cases we)
  with Cons.prems have q: "quiet_for ws e" by auto
  have d1: "distinct (map fst (sessions (fst (step w h e))))"
    using Cons.prems(1) by (rule step_distinct)
  from step_quiet [OF Cons.prems(2) q, of w] obtain s1 where
    s1: "map_of (sessions (fst (step w h e))) ws = Some s1" "isAlive s1 = isAlive s"
    by auto
  have "\<forall>(w', e) \<in> set evs. quiet_for ws e" using Cons.prems(3) by auto
  from Cons.IH [OF d1 s1(1) this] s1(2) we show ?case
    by (auto split: prod.splits)
qed

text \<open>
  C9. For a registered session, a heartbeat tick terminates its transport when its
  liveness flag is false (and sends no probe), and otherwise clears the flag and
  sends a probe (and does not terminate); a pong sets the flag to true. Hence, after
  a tick and any events other than a pong, close, error or reconnection of that
  socket, the next tick terminates the transport; the close event that follows
  removes the session from the registry and calls the pty's kill, which kills the
  shell process once if there is one; any later close of the same socket does
  nothing. (The 30-second period is the tick event.)
\<close>

theorem heartbeat_supervision:
  assumes "distinct (map fst (sessions h))" "map_of (sessions h) ws = Some s"
    and "\<forall>(w', e) \<in> set evs. quiet_for ws e"
  shows "(isAlive s \<longrightarrow>
            WsPing ws \<in> set (snd (heartbeat h)) \<and> WsTerminate ws \<notin> set (snd (heartbeat h)) \<and>
            map_of (sessions (fst (heartbeat h))) ws = Some (s\<lparr>isAlive := False\<rparr>)) \<and>
         (\<not> isAlive s \<longrightarrow>
            WsTerminate ws \<in> set (snd (heartbeat h)) \<and> WsPing ws \<notin> set (snd (heartbeat h)) \<and>
            map_of (sessions (fst (heartbeat h))) ws = Some s) \<and>
         map_of (sessions (handlePong h ws)) ws = Some (s\<lparr>isAlive := True\<rparr>) \<and>
         (\<exists>s'. map_of (sessions (after_unanswered_probe h evs)) ws = Some s' \<and>
            WsTerminate ws \<in> set (snd (heartbeat (after_unanswered_probe h evs))) \<and>
            map_of (sessions (fst (heartbeat (after_unanswered_probe h evs)))) ws = Some s' \<and>
            handleClose w (fst (heartbeat (after_unanswered_probe h evs))) ws =
              ((fst (heartbeat (after_unanswered_probe h evs)))
                 \<lparr>sessions := AList.delete ws
                     (sessions (fst (heartbeat (after_unanswered_probe h evs))))\<rparr>,
               (case ptyProcess (pty s') of None \<Rightarrow> [] | Some p \<Rightarrow> [PtyKill (pid p) None])) \<and>
            map_of (sessions (fst (handleClose w (fst (heartbeat (after_unanswered_probe h evs))) ws)))
              ws = None \<and>
            handleClose w' (fst (handleClose w (fst (heartbeat (after_unanswered_probe h evs))) ws)) ws =
              (fst (handleClose w (fst (heartbeat (after_unanswered_probe h evs))) ws), []))"
proof -
  have mem: "(ws, s) \<in> set (sessions h)" using assms(2) by (rule map_of_SomeD)
  have uniq: "s' = s" if "(ws, s') \<in> set (sessions h)" for s'
  proof -
    from that assms(1) have "map_of (sessions h) ws = Some s'" by (rule map_of_is_SomeI [rotated])
    with assms(2) show ?thesis by simp
  qed
  have look: "map_of (sessions (fst (heartbeat h))) ws =
      Some (if isAlive s then s\<lparr>isAlive := False\<rparr> else s)"
    using assms(2) by (simp add: heartbeat_lookup)
  have tick_alive: "isAlive s \<longrightarrow>
            WsPing ws \<in> set (snd (heartbeat h)) \<and> WsTerminate ws \<notin> set (snd (heartbeat h)) \<and>
            map_of (sessions (fst (heartbeat h))) ws = Some (s\<lparr>isAlive := False\<rparr>)"
  proof (intro impI conjI)
    assume a: "isAlive s"
    with mem show "WsPing ws \<in> set (snd (heartbeat h))"
      unfolding heartbeat_pings by blast
    from a uniq show "WsTerminate ws \<notin> set (snd (heartbeat h))"
      unfolding heartbeat_terminates by blast
    from a look show "map_of (sessions (fst (heartbeat h))) ws = Some (s\<lparr>isAlive := False\<rparr>)"
      by simp
  qed
  have tick_dead: "\<not> isAlive s \<longrightarrow>
            WsTerminate ws \<in> set (snd (heartbeat h)) \<and> WsPing ws \<notin> set (snd (heartbeat h)) \<and>
            map_of (sessions (fst (heartbeat h))) ws = Some s"
  proof (intro impI conjI)
    assume a: "\<not> isAlive s"
    with mem show "WsTerminate ws \<in> set (snd (heartbeat h))"
      unfolding heartbeat_terminates by blast
    from a uniq show "WsPing ws \<notin> set (snd (heartbeat h))"
      unfolding heartbeat_pings by blast
    from a look show "map_of (sessions (fst (heartbeat h))) ws = Some s"
      by simp
  qed
  have pong: "map_of (sessions (handlePong h ws)) ws = Some (s\<lparr>isAlive := True\<rparr>)"
    using assms(2) by (simp add: handlePong_def update_conv')
  let ?h1 = "fst (heartbeat h)"
  have d1: "distinct (map fst (sessions ?h1))" using assms(1) by (simp add: heartbeat_keys)
  obtain s1 where s1: "map_of (sessions ?h1) ws = Some s1" "\<not> isAlive s1"
    using look by (cases "isAlive s") simp_all
  let ?h2 = "after_unanswered_probe h evs"
  from run_quiet [OF d1 s1(1) assms(3)] s1(2) obtain s2 where
    s2: "map_of (sessions ?h2) ws = Some s2" "\<not> isAlive s2"
    unfolding after_unanswered_probe_def by blast
  have terminated: "WsTerminate ws \<in> set (snd (heartbeat ?h2))"
    using map_of_SomeD [OF s2(1)] s2(2) unfolding heartbeat_terminates by blast
  let ?h3 = "fst (heartbeat ?h2)"
  have s3: "map_of (sessions ?h3) ws = Some s2"
    using s2 by (simp add: heartbeat_lookup)
  have closed: "handleClose w ?h3 ws =
      (?h3\<lparr>sessions := AList.delete ws (sessions ?h3)\<rparr>,
       (case ptyProcess (pty s2) of None \<Rightarrow> [] | Some p \<Rightarrow> [PtyKill (pid p) None]))"
    using s3 by (simp add: handleClose_def kill_def split: option.split)
  have gone: "map_of (sessions (fst (handleClose w ?h3 ws))) ws = None"
    unfolding closed by (simp add: delete_conv')
  have again: "handleClose w' (fst (handleClose w ?h3 ws)) ws = (fst (handleClose w ?h3 ws), [])"
    using gone by (simp add: handleClose_def)
  show ?thesis
    apply (intro conjI)
       apply (rule tick_alive)
      apply (rule tick_dead)
     apply (rule pong)
    apply (rule exI [of _ s2])
    apply (intro conjI)
         apply (rule s2(1))
        apply (rule terminated)
       apply (rule s3)
      apply (rule closed)
     apply (rule gone)
    apply (rule again)
    done
qed

theorem heartbeat_supervision_witness:
  "distinct (map fst (sessions limited_handler)) \<and>
   map_of (sessions limited_handler) 1 = Some live_session \<and>
   quiet_for 1 (Message 1 ''x'' False) \<and>
   snd (heartbeat limited_handler) = [WsPing 1] \<and>
   snd (heartbeat (after_unanswered_probe limited_handler [(world0, Message 1 ''x'' False)])) =
     [WsTerminate 1] \<and>
   handleClose world0
     (fst (heartbeat (after_unanswered_probe limited_handler [(world0, Message 1 ''x'' False)]))) 1 =
     (limited_handler\<lparr>sessions := []\<rparr>, [PtyKill 101 None])"
  using heartbeat_supervision [of limited_handler 1 live_session "[(world0, Message 1 ''x'' False)]"
      world0 world0]
  by (simp add: limited_handler_def live_session_def world0_def handleMessage_def
        processFrame_def decodeFrame_def sendError_def send_def Let_def heartbeat_def
        heartbeat_session_def after_unanswered_probe_def handleClose_def kill_def)

section \<open>Evaluation of traces\<close>

lemmas eval_defs =
  handleConnection_def handleMessage_def processFrame_def decodeFrame_def handleClose_def
  handleAuth_def spawn_def onData_def onExit_def getProcess_def kill_def send_def sendError_def
  handleFileUpload_def Buffer_from_def or_string_def or_int_def new_PTYManager_def
  world_json_def world_second_def world0_def handler0_def auth_text_def Let_def

lemmas path_defs = resolve_def basename_def normalizeString_def

text \<open>
  C2 fails on the code: a second AUTH message on the same session spawns a second
  shell. The trace is a connection, two AUTH messages and the close of the socket:
  \<open>pty.spawn\<close> is called twice, callbacks are registered on both processes, and the
  close kills only the second process (102); the first (101) is never killed.
\<close>

theorem second_auth_spawns_again:
  "(case run handler0
          [(world_json, Connection 1 ''sid''), (world_json, Message 1 auth_text False),
           (world_second, Message 1 auth_text False), (world_json, Close 1)] of
      (h, out) \<Rightarrow>
        length (filter is_PtySpawn out) = 2 \<and>
        PtyOnData 101 1 \<in> set out \<and> PtyOnData 102 1 \<in> set out \<and>
        filter is_PtyKill out = [PtyKill 102 None] \<and> sessions h = [])"
  by (simp add: eval_defs)


text \<open>
  C3 fails on the code: a binary frame of 20 bytes whose length field says 100 is
  decoded into a FILE\_UPLOAD message (the header slice is clamped to the frame and
  parses) and routed; on an authenticated session an empty file is written and a
  success OUTPUT is sent instead of an ERROR.
\<close>

theorem oversized_header_routed:
  "readUInt32BE short_frame = Inr 100 \<and> length short_frame = 20 \<and>
   decodeFrame world_json short_frame True =
     Inr (FileUploadMessage (Some ''x'') (BufferData []) 0) \<and>
   (case run handler0
           [(world_json, Connection 1 ''sid''), (world_json, Message 1 auth_text False)] of
      (h, out) \<Rightarrow>
        snd (handleMessage world_json h 1 short_frame True) =
          [WriteFileSync ''/srv/app/x'' [], WsSend 1 (OutputMessage (upload_complete ''x''))])"
  by (simp add: eval_defs path_defs readUInt32BE_def subarray_def short_frame_def upload_header_def)


section \<open>Upload sandbox: results\<close>

lemma basename_no_slash: "CHR ''/'' \<notin> set (basename p)"
  unfolding basename_def by (auto dest: set_takeWhileD)

lemma join_with_snoc:
  "join_with c (segs @ [b]) = (if segs = [] then b else join_with c segs @ c # b)"
  by (induction c segs rule: join_with.induct) auto

lemma split_join:
  "\<forall>s \<in> set segs. c \<notin> set s \<Longrightarrow> segs \<noteq> [] \<Longrightarrow> split_on c (join_with c segs) = segs"
proof (induction c segs rule: join_with.induct)
  case (1 c)
  then show ?case by simp
next
  case (2 c p)
  then show ?case by (simp add: split_on_no_sep)
next
  case (3 c p q ps)
  then show ?case by (simp add: split_on_append split_on_no_sep)
qed

lemma normalize_append:
  "normalize_segments a res (xs @ ys) = normalize_segments a (normalize_segments a res xs) ys"
  by (induction xs arbitrary: res) auto

lemma normalize_plain:
  "list_all plain_segment segs \<Longrightarrow> normalize_segments a res segs = res @ segs"
  by (induction segs arbitrary: res) (auto simp: plain_segment_def)

lemma split_abs_path:
  "list_all plain_segment segs \<Longrightarrow>
   normalize_segments a [] (split_on CHR ''/'' (abs_path segs)) = segs"
proof (cases "segs = []")
  case True
  then show ?thesis by (simp add: abs_path_def)
next
  case False
  assume pl: "list_all plain_segment segs"
  then have ns: "\<forall>s \<in> set segs. CHR ''/'' \<notin> set s"
    by (auto simp: list_all_iff plain_segment_def)
  have "split_on CHR ''/'' (abs_path segs) = [] # segs"
    using split_join [OF ns False] by (simp add: abs_path_def)
  with pl show ?thesis by (simp add: normalize_plain)
qed

lemma normalize_one:
  "list_all plain_segment segs \<Longrightarrow>
   normalize_segments False segs [b, []] = resolved_segments segs b"
  by (cases "segs = []")
     (auto simp: resolved_segments_def plain_segment_def list_all_iff)

lemma abs_path_nonempty: "abs_path segs \<noteq> []" "hd (abs_path segs) = CHR ''/''"
  by (simp_all add: abs_path_def)

lemma resolve_in_cwd:
  assumes pl: "list_all plain_segment segs" and b: "CHR ''/'' \<notin> set b"
  shows "resolve (abs_path segs) [abs_path segs, b] = abs_path (resolved_segments segs b)"
proof (cases "b = []")
  case True
  have loop: "resolve_loop (rev [abs_path segs, b] @ [abs_path segs]) [] = (abs_path segs @ ''/'', True)"
    using True by (simp add: abs_path_nonempty)
  have "split_on CHR ''/'' (abs_path segs @ ''/'') = split_on CHR ''/'' (abs_path segs) @ [[]]"
    using split_on_append [of "CHR ''/''" "abs_path segs" "[]"] by simp
  then have "normalize_segments False [] (split_on CHR ''/'' (abs_path segs @ ''/'')) = segs"
    using pl by (simp add: normalize_append split_abs_path)
  with loop True show ?thesis
    by (simp add: resolve_def normalizeString_def resolved_segments_def abs_path_def)
next
  case False
  then have hd: "hd b \<noteq> CHR ''/''" using b by (cases b) auto
  have loop: "resolve_loop (rev [abs_path segs, b] @ [abs_path segs]) [] =
      (abs_path segs @ ''/'' @ b @ ''/'', True)"
    using False hd by (simp add: abs_path_nonempty)
  have sp: "split_on CHR ''/'' (abs_path segs @ ''/'' @ b @ ''/'') =
      split_on CHR ''/'' (abs_path segs) @ [b, []]"
    using split_on_append [of "CHR ''/''" "abs_path segs" "b @ ''/''"]
          split_on_append [of "CHR ''/''" b "[]"] split_on_no_sep [OF b]
    by simp
  have "normalize_segments False [] (split_on CHR ''/'' (abs_path segs @ ''/'' @ b @ ''/'')) =
      resolved_segments segs b"
    unfolding sp normalize_append split_abs_path [OF pl] by (rule normalize_one [OF pl])
  with loop show ?thesis
    by (simp add: resolve_def normalizeString_def abs_path_def)
qed

lemma length_join_butlast:
  "segs \<noteq> [] \<Longrightarrow> last segs \<noteq> [] \<Longrightarrow>
   length (join_with c (butlast segs)) < length (join_with c segs)"
proof -
  assume a: "segs \<noteq> []" "last segs \<noteq> []"
  then have "join_with c segs = join_with c (butlast segs @ [last segs])" by simp
  also have "\<dots> = (if butlast segs = [] then last segs
                   else join_with c (butlast segs) @ c # last segs)"
    by (rule join_with_snoc)
  finally show ?thesis using a by (auto split: if_splits)
qed

lemma parent_not_prefixed:
  assumes "list_all plain_segment segs" "segs \<noteq> []"
  shows "\<not> prefix (abs_path segs) (abs_path (butlast segs))"
proof
  assume "prefix (abs_path segs) (abs_path (butlast segs))"
  then have "length (abs_path segs) \<le> length (abs_path (butlast segs))"
    by (rule prefix_length_le)
  moreover have "last segs \<noteq> []"
    using assms by (auto simp: list_all_iff plain_segment_def)
  ultimately show False
    using length_join_butlast [OF assms(2), of "CHR ''/''"] by (simp add: abs_path_def)
qed

lemma child_prefixed: "prefix (abs_path segs) (abs_path (segs @ [b]))"
  by (simp add: abs_path_def join_with_snoc)

lemma prefix_resolved:
  assumes "list_all plain_segment segs"
  shows "prefix (abs_path segs) (abs_path (resolved_segments segs b)) \<longleftrightarrow> \<not> (b = ''..'' \<and> segs \<noteq> [])"
proof (cases "b = ''..''")
  case True
  then show ?thesis
    using parent_not_prefixed [OF assms] by (cases "segs = []") (auto simp: resolved_segments_def)
next
  case False
  then show ?thesis
    by (auto simp: resolved_segments_def child_prefixed)
qed

lemma handleFileUpload_cases:
  assumes cwd: "process_cwd w = abs_path segs" and pl: "list_all plain_segment segs"
  shows "handleFileUpload w ws session (Some name) data =
    (session,
     if basename name = ''..'' \<and> segs \<noteq> [] then sendError w ws ''Invalid path''
     else WriteFileSync (abs_path (resolved_segments segs (basename name))) (Buffer_from w data) #
          (if writeFileSync_throws w (abs_path (resolved_segments segs (basename name)))
           then sendError w ws ''Upload failed''
           else send w ws (OutputMessage (upload_complete name))))"
proof -
  have r: "resolve (process_cwd w) [process_cwd w, basename name] =
      abs_path (resolved_segments segs (basename name))"
    unfolding cwd by (rule resolve_in_cwd [OF pl basename_no_slash])
  show ?thesis
    unfolding handleFileUpload_def option.case Let_def r
    unfolding cwd prefix_resolved [OF pl]
    by simp
qed

lemma send_only_sends: "e \<in> set (send w ws m) \<Longrightarrow> e = WsSend ws m"
  by (simp add: send_def split: if_splits)

lemma basename_passwd: "basename ''../../etc/passwd'' = ''passwd''"
  by (simp add: basename_def)

text \<open>
  C1 (as the code has it). On an authenticated session whose working directory is an
  absolute normalized path (as \<open>process.cwd()\<close> returns), a FILE\_UPLOAD message
  never closes the session or changes its state, and every path handed to
  \<open>writeFileSync\<close> is the working directory itself or a direct child of it. In
  detail, by the basename of the filename: a plain name is written as that direct
  child; an empty basename or \<open>.\<close>, and \<open>..\<close> when the working directory is the
  root, make the target the working directory itself, which is handed to
  \<open>writeFileSync\<close>; \<open>..\<close> with any other working directory is rejected with the
  error \<open>Invalid path\<close> and nothing is written; an undefined filename gets
  \<open>Upload failed\<close>. A write is answered with a success OUTPUT, or with
  \<open>Upload failed\<close> when it throws. The filename \<open>../../etc/passwd\<close> is not
  rejected: it is written as \<open>passwd\<close> in the working directory. Every answer is
  sent only while the transport is open.
\<close>

theorem upload_sandbox:
  fixes w :: World and ws :: nat and data :: FileData
  defines "err \<equiv> \<lambda>m. if readyState_open w ws then [WsSend ws (ErrorMessage m)] else []"
  defines "written \<equiv> \<lambda>name p.
      WriteFileSync p (Buffer_from w data) #
      (if writeFileSync_throws w p then err ''Upload failed''
       else if readyState_open w ws then [WsSend ws (OutputMessage (upload_complete name))]
       else [])"
  assumes "authenticated session" "process_cwd w = abs_path segs" "list_all plain_segment segs"
  shows "fst (routeMessage w ws session (FileUploadMessage filename data sz)) = session \<and>
     WsClose ws \<notin> set (snd (routeMessage w ws session (FileUploadMessage filename data sz))) \<and>
     WsTerminate ws \<notin> set (snd (routeMessage w ws session (FileUploadMessage filename data sz))) \<and>
     (\<forall>p buf. WriteFileSync p buf \<in>
                 set (snd (routeMessage w ws session (FileUploadMessage filename data sz))) \<longrightarrow>
        (\<exists>name. filename = Some name \<and>
           (p = abs_path segs \<or>
            plain_segment (basename name) \<and> p = abs_path (segs @ [basename name])))) \<and>
     (filename = None \<longrightarrow>
        snd (routeMessage w ws session (FileUploadMessage filename data sz)) =
          err ''Upload failed'') \<and>
     (\<forall>name. filename = Some name \<longrightarrow>
        CHR ''/'' \<notin> set (basename name) \<and>
        (plain_segment (basename name) \<longrightarrow>
           snd (routeMessage w ws session (FileUploadMessage filename data sz)) =
             written name (abs_path (segs @ [basename name]))) \<and>
        (basename name = [] \<or> basename name = ''.'' \<or> basename name = ''..'' \<and> segs = [] \<longrightarrow>
           snd (routeMessage w ws session (FileUploadMessage filename data sz)) =
             written name (abs_path segs)) \<and>
        (basename name = ''..'' \<and> segs \<noteq> [] \<longrightarrow>
           snd (routeMessage w ws session (FileUploadMessage filename data sz)) =
             err ''Invalid path'')) \<and>
     (filename = Some ''../../etc/passwd'' \<longrightarrow>
        snd (routeMessage w ws session (FileUploadMessage filename data sz)) =
          written ''../../etc/passwd'' (abs_path (segs @ [''passwd''])))"
proof (cases filename)
  case None
  with assms(3) show ?thesis
    by (auto simp: handleFileUpload_def sendError_def send_def err_def)
next
  case (Some name)
  note c = handleFileUpload_cases [OF assms(4,5), of ws session name data]
  have route: "routeMessage w ws session (FileUploadMessage filename data sz) =
      handleFileUpload w ws session (Some name) data"
    using assms(3) Some by simp
  have inside: "abs_path (resolved_segments segs (basename name)) = abs_path segs \<or>
      plain_segment (basename name) \<and>
      abs_path (resolved_segments segs (basename name)) = abs_path (segs @ [basename name])"
    if "\<not> (basename name = ''..'' \<and> segs \<noteq> [])"
    using that basename_no_slash [of name]
    by (auto simp: resolved_segments_def plain_segment_def)
  have passwd: "resolved_segments segs ''passwd'' = segs @ [''passwd'']"
    by (simp add: resolved_segments_def)
  have plain: "resolved_segments segs (basename name) = segs @ [basename name]"
    if "plain_segment (basename name)"
    using that by (simp add: resolved_segments_def plain_segment_def)
  have self: "resolved_segments segs (basename name) = segs"
    if "basename name = [] \<or> basename name = ''.'' \<or> basename name = ''..'' \<and> segs = []"
    using that by (auto simp: resolved_segments_def)
  have notplain: "\<not> plain_segment ''..''" by (simp add: plain_segment_def)
  show ?thesis
    unfolding route c
    using inside Some passwd plain self notplain basename_no_slash [of name]
    by (auto simp: sendError_def send_def err_def written_def basename_passwd)
qed

theorem upload_sandbox_witness:
  "authenticated live_session \<and> process_cwd world0 = abs_path [''srv'', ''app''] \<and>
   list_all plain_segment [''srv'', ''app''] \<and>
   process_cwd world_root = abs_path [] \<and>
   routeMessage world0 1 live_session (FileUploadMessage (Some ''a/b.txt'') (BufferData ''hi'') 2) =
     (live_session,
      [WriteFileSync ''/srv/app/b.txt'' ''hi'', WsSend 1 (OutputMessage (upload_complete ''a/b.txt''))]) \<and>
   routeMessage world0 1 live_session (FileUploadMessage (Some ''a/..'') (BufferData ''hi'') 2) =
     (live_session, [WsSend 1 (ErrorMessage ''Invalid path'')]) \<and>
   routeMessage world_root 1 live_session (FileUploadMessage (Some ''..'') (BufferData ''hi'') 2) =
     (live_session, [WriteFileSync ''/'' ''hi'', WsSend 1 (ErrorMessage ''Upload failed'')])"
  using upload_sandbox [of live_session world0 "[''srv'', ''app'']" 1 "Some ''a/b.txt''"
            "BufferData ''hi''" 2]
        upload_sandbox [of live_session world_root "[]" 1 "Some ''..''" "BufferData ''hi''" 2]
  by (simp add: live_session_def world0_def world_root_def abs_path_def plain_segment_def
        handleFileUpload_def resolve_def basename_def normalizeString_def Buffer_from_def
        send_def sendError_def)

text \<open>
  C1 as stated fails: an upload named \<open>../../etc/passwd\<close> is not rejected with an
  ERROR; the file \<open>passwd\<close> is written in the working directory and a success
  OUTPUT is sent.
\<close>

theorem traversal_name_counterexample:
  "authenticated live_session \<and>
   routeMessage world0 1 live_session
     (FileUploadMessage (Some ''../../etc/passwd'') (BufferData ''root'') 4) =
     (live_session,
      [WriteFileSync ''/srv/app/passwd'' ''root'',
       WsSend 1 (OutputMessage (upload_complete ''../../etc/passwd''))])"
  by (simp add: live_session_def world0_def handleFileUpload_def
        resolve_def basename_def normalizeString_def Buffer_from_def send_def sendError_def)


end
